theory Spec2Isabelle
  imports Complex_Main "HOL-Library.Monad_Syntax" "HOL-Library.Signed_Division"
begin

section \<open>The graph under construction\<close>

text \<open>
  The file \<^verbatim>\<open>tensorflow/examples/cc/gan/dcgan/nn_ops_rkz.cc\<close> builds a symbolic
  computation graph: every call of a framework operation on a \<^verbatim>\<open>Scope\<close> appends one node
  to the graph of that scope and returns a handle on the new node. The scope is the only
  state; it is threaded through every builder below as the list of the nodes built so far,
  the newest first. The identity of a node is the number of nodes that were built before
  it.

  C++ \<^verbatim>\<open>float\<close> values computed on the host are modelled by the real numbers they stand
  for; rounding to binary32 is not modelled. Logging of the scope's status has no effect on
  the graph and is left out.
\<close>

datatype DataType = DT_FLOAT | DT_INT32 | DT_INT64

text \<open>A constant tensor: its shape and its elements in row-major order.\<close>

datatype tensor =
    TFloat "int list" "real list"
  | TInt32 "int list" "int list"
  | TInt64 "int list" "int list"

text \<open>
  Modelled from the spec: the operations of the framework's graph-construction API that
  the file calls (declared in \<^verbatim>\<open>tensorflow/cc/ops/*.h\<close>, which is not part of the
  excerpt). Each one is a kind of node; attributes that the file sets are arguments of the
  constructor.
\<close>

datatype opkind =
    Op_Const tensor
  | Op_Add | Op_Sub | Op_Multiply | Op_Div
  | Op_Rsqrt | Op_Floor | Op_Negate | Op_Exp | Op_Log1p
  | Op_Cast DataType
  | Op_Shape | Op_ZerosLike | Op_GreaterEqual | Op_SelectV2
  | Op_RandomUniform DataType | Op_RandomNormal DataType
  | Op_Variable "int list" DataType
  | Op_Assign
  | Op_MatMul | Op_BiasAdd | Op_Reshape | Op_BroadcastTo
  | Op_LeakyRelu real
  | Op_FusedBatchNorm real
  | Op_Conv2D "int list" string
  | Op_Conv2DBackpropInput "int list" string

text \<open>
  An \<^verbatim>\<open>Output\<close> is a handle on a node of the graph. An \<^verbatim>\<open>Input\<close> is either such a
  handle or an immediate tensor value (a C++ initializer list, a scalar or a
  \<^verbatim>\<open>Tensor\<close>); \<open>NoNode\<close> is the input made from a default-constructed \<^verbatim>\<open>Output\<close>,
  which has no node.
\<close>

type_synonym Output = nat

datatype Input = Ref Output | Imm tensor | NoNode

datatype node = Node (kind: opkind) (inputs: "Input list")

type_synonym Graph = "node list"

definition add_node :: "opkind \<Rightarrow> Input list \<Rightarrow> Graph \<Rightarrow> Output \<times> Graph" where
  "add_node k ins g = (length g, Node k ins # g)"

subsection \<open>The framework operations used by the file\<close>

definition Const :: "tensor \<Rightarrow> Graph \<Rightarrow> Output \<times> Graph" where
  "Const t = add_node (Op_Const t) []"

definition Add :: "Input \<Rightarrow> Input \<Rightarrow> Graph \<Rightarrow> Output \<times> Graph" where
  "Add x y = add_node Op_Add [x, y]"

definition Sub :: "Input \<Rightarrow> Input \<Rightarrow> Graph \<Rightarrow> Output \<times> Graph" where
  "Sub x y = add_node Op_Sub [x, y]"

definition Multiply :: "Input \<Rightarrow> Input \<Rightarrow> Graph \<Rightarrow> Output \<times> Graph" where
  "Multiply x y = add_node Op_Multiply [x, y]"

definition Div :: "Input \<Rightarrow> Input \<Rightarrow> Graph \<Rightarrow> Output \<times> Graph" where
  "Div x y = add_node Op_Div [x, y]"

definition Rsqrt :: "Input \<Rightarrow> Graph \<Rightarrow> Output \<times> Graph" where
  "Rsqrt x = add_node Op_Rsqrt [x]"

definition Floor :: "Input \<Rightarrow> Graph \<Rightarrow> Output \<times> Graph" where
  "Floor x = add_node Op_Floor [x]"

definition Negate :: "Input \<Rightarrow> Graph \<Rightarrow> Output \<times> Graph" where
  "Negate x = add_node Op_Negate [x]"

definition Exp :: "Input \<Rightarrow> Graph \<Rightarrow> Output \<times> Graph" where
  "Exp x = add_node Op_Exp [x]"

definition Log1p :: "Input \<Rightarrow> Graph \<Rightarrow> Output \<times> Graph" where
  "Log1p x = add_node Op_Log1p [x]"

definition Cast :: "Input \<Rightarrow> DataType \<Rightarrow> Graph \<Rightarrow> Output \<times> Graph" where
  "Cast x dt = add_node (Op_Cast dt) [x]"

definition Shape :: "Input \<Rightarrow> Graph \<Rightarrow> Output \<times> Graph" where
  "Shape x = add_node Op_Shape [x]"

definition ZerosLike :: "Input \<Rightarrow> Graph \<Rightarrow> Output \<times> Graph" where
  "ZerosLike x = add_node Op_ZerosLike [x]"

definition GreaterEqual :: "Input \<Rightarrow> Input \<Rightarrow> Graph \<Rightarrow> Output \<times> Graph" where
  "GreaterEqual x y = add_node Op_GreaterEqual [x, y]"

definition SelectV2 :: "Input \<Rightarrow> Input \<Rightarrow> Input \<Rightarrow> Graph \<Rightarrow> Output \<times> Graph" where
  "SelectV2 c t e = add_node Op_SelectV2 [c, t, e]"

definition RandomUniform :: "Input \<Rightarrow> DataType \<Rightarrow> Graph \<Rightarrow> Output \<times> Graph" where
  "RandomUniform shape dt = add_node (Op_RandomUniform dt) [shape]"

definition RandomNormal :: "Input \<Rightarrow> DataType \<Rightarrow> Graph \<Rightarrow> Output \<times> Graph" where
  "RandomNormal shape dt = add_node (Op_RandomNormal dt) [shape]"

definition Variable :: "int list \<Rightarrow> DataType \<Rightarrow> Graph \<Rightarrow> Output \<times> Graph" where
  "Variable shape dt = add_node (Op_Variable shape dt) []"

definition Assign :: "Input \<Rightarrow> Input \<Rightarrow> Graph \<Rightarrow> Output \<times> Graph" where
  "Assign ref v = add_node Op_Assign [ref, v]"

definition MatMul :: "Input \<Rightarrow> Input \<Rightarrow> Graph \<Rightarrow> Output \<times> Graph" where
  "MatMul a b = add_node Op_MatMul [a, b]"

definition BiasAdd :: "Input \<Rightarrow> Input \<Rightarrow> Graph \<Rightarrow> Output \<times> Graph" where
  "BiasAdd v b = add_node Op_BiasAdd [v, b]"

definition Reshape :: "Input \<Rightarrow> Input \<Rightarrow> Graph \<Rightarrow> Output \<times> Graph" where
  "Reshape t shape = add_node Op_Reshape [t, shape]"

definition BroadcastTo :: "Input \<Rightarrow> Input \<Rightarrow> Graph \<Rightarrow> Output \<times> Graph" where
  "BroadcastTo x shape = add_node Op_BroadcastTo [x, shape]"

definition LeakyRelu :: "Input \<Rightarrow> real \<Rightarrow> Graph \<Rightarrow> Output \<times> Graph" where
  "LeakyRelu features alpha = add_node (Op_LeakyRelu alpha) [features]"

text \<open>
  \<^verbatim>\<open>FusedBatchNorm\<close> has several outputs; the file only reads \<^verbatim>\<open>y\<close>, the first, which
  the handle returned here stands for.
\<close>

definition FusedBatchNorm ::
  "Input \<Rightarrow> Input \<Rightarrow> Input \<Rightarrow> Input \<Rightarrow> Input \<Rightarrow> real \<Rightarrow> Graph \<Rightarrow> Output \<times> Graph" where
  "FusedBatchNorm x scale offset mean variance epsilon =
     add_node (Op_FusedBatchNorm epsilon) [x, scale, offset, mean, variance]"

definition Conv2D :: "Input \<Rightarrow> Input \<Rightarrow> int list \<Rightarrow> string \<Rightarrow> Graph \<Rightarrow> Output \<times> Graph" where
  "Conv2D inp filter' strides padding = add_node (Op_Conv2D strides padding) [inp, filter']"

definition Conv2DBackpropInput ::
  "Input \<Rightarrow> Input \<Rightarrow> Input \<Rightarrow> int list \<Rightarrow> string \<Rightarrow> Graph \<Rightarrow> Output \<times> Graph" where
  "Conv2DBackpropInput input_sizes filter' out_backprop strides padding =
     add_node (Op_Conv2DBackpropInput strides padding) [input_sizes, filter', out_backprop]"

lemmas op_defs =
  add_node_def Const_def Add_def Sub_def Multiply_def Div_def Rsqrt_def Floor_def Negate_def
  Exp_def Log1p_def Cast_def Shape_def ZerosLike_def GreaterEqual_def SelectV2_def
  RandomUniform_def RandomNormal_def Variable_def Assign_def MatMul_def BiasAdd_def
  Reshape_def BroadcastTo_def LeakyRelu_def FusedBatchNorm_def Conv2D_def
  Conv2DBackpropInput_def

section \<open>The helpers of the file\<close>

text \<open>
  Where the C++ nests calls, the inner call is built first; where one call has several
  nested calls as arguments, C++ leaves their order open and the model builds them from
  left to right. No property below depends on that choice except through node numbers.
\<close>

text \<open>\<^verbatim>\<open>BatchNormalization::BatchNormalization\<close>, lines 45 to 61.\<close>

definition BatchNormalization ::
  "Input \<Rightarrow> Input \<Rightarrow> Input \<Rightarrow> Input \<Rightarrow> Input \<Rightarrow> Input \<Rightarrow> Graph \<Rightarrow> Output \<times> Graph" where
  "BatchNormalization x mean variance offset scale variance_epsilon g0 =
     (let (s, g1) = Add variance variance_epsilon g0;
          (inv, g2) = Rsqrt (Ref s) g1;
          (c1, g3) = Cast (Ref inv) DT_FLOAT g2;
          (ret1, g4) = Multiply x (Ref c1) g3;
          (ret2, g5) = Multiply mean (Ref inv) g4;
          (d, g6) = Sub offset (Ref ret2) g5;
          (c2, g7) = Cast (Ref d) DT_FLOAT g6
      in Add (Ref ret1) (Ref c2) g7)"

text \<open>
  \<^verbatim>\<open>Dropout::Dropout\<close>, lines 63 to 78. The parameter \<^verbatim>\<open>rate\<close> is declared
  \<^verbatim>\<open>const int\<close>; \<^verbatim>\<open>keep_prob\<close> is the \<^verbatim>\<open>float\<close> of the integer \<^verbatim>\<open>1 - rate\<close>.
\<close>

definition Dropout :: "Input \<Rightarrow> int \<Rightarrow> Graph \<Rightarrow> Output \<times> Graph" where
  "Dropout x rate g0 =
     (let keep_prob = real_of_int (1 - rate);
          (sh, g1) = Shape x g0;
          (random_value5, g2) = RandomUniform (Ref sh) DT_FLOAT g1;
          (k1, g3) = Const (TFloat [1] [keep_prob]) g2;
          (random_tensor, g4) = Add (Ref random_value5) (Ref k1) g3;
          (binary_tensor, g5) = Floor (Ref random_tensor) g4;
          (k2, g6) = Const (TFloat [1] [keep_prob]) g5;
          (q, g7) = Div x (Ref k2) g6
      in Multiply (Ref q) (Ref binary_tensor) g7)"

text \<open>
  The conversion that C++ applies where a \<^verbatim>\<open>float\<close> argument meets an \<^verbatim>\<open>int\<close>
  parameter: the fractional part is discarded.
\<close>

definition float_to_int :: "real \<Rightarrow> int" where
  "float_to_int r = (if 0 \<le> r then \<lfloor>r\<rfloor> else \<lceil>r\<rceil>)"

text \<open>\<^verbatim>\<open>SigmoidCrossEntropyWithLogits::SigmoidCrossEntropyWithLogits\<close>, lines 95 to 106.\<close>

definition SigmoidCrossEntropyWithLogits :: "Input \<Rightarrow> Input \<Rightarrow> Graph \<Rightarrow> Output \<times> Graph" where
  "SigmoidCrossEntropyWithLogits labels logits g0 =
     (let (zeros, g1) = ZerosLike logits g0;
          (cond, g2) = GreaterEqual logits (Ref zeros) g1;
          (relu_logits, g3) = SelectV2 (Ref cond) logits (Ref zeros) g2;
          (n, g4) = Negate logits g3;
          (neg_abs_logits, g5) = SelectV2 (Ref cond) (Ref n) logits g4;
          (m, g6) = Multiply logits labels g5;
          (d, g7) = Sub (Ref relu_logits) (Ref m) g6;
          (e, g8) = Exp (Ref neg_abs_logits) g7;
          (l, g9) = Log1p (Ref e) g8
      in Add (Ref d) (Ref l) g9)"

text \<open>
  \<^verbatim>\<open>GlorotUniform::GlorotUniform\<close>, lines 109 to 144. \<^verbatim>\<open>shape_vec[0]\<close> and
  \<^verbatim>\<open>shape_vec[1]\<close> are read whatever the length of the shape; on a shape with fewer than
  two elements that read is past the end of the vector, the behaviour of the C++ program
  is undefined there, and the model returns \<open>None\<close>.
\<close>

definition GlorotUniform :: "int list \<Rightarrow> Graph \<Rightarrow> (Output \<times> Graph) option" where
  "GlorotUniform shape g0 =
     (let (c, g1) = Const (TInt64 [int (length shape)] shape) g0;
          (random_value, g2) = RandomUniform (Ref c) DT_FLOAT g1
      in if length shape < 2 then None
         else
           let shape_vec = shape;
               fan_in = real_of_int (shape_vec ! 0);
               fan_out = real_of_int (shape_vec ! 1);
               (fan_in, fan_out) =
                 (if length shape_vec = 4 then
                    let receptive_field_size =
                          1 * real_of_int (shape_vec ! 0) * real_of_int (shape_vec ! 1)
                    in (receptive_field_size * real_of_int (shape_vec ! 2),
                        receptive_field_size * real_of_int (shape_vec ! 3))
                  else (fan_in, fan_out));
               scale = 1 / max 1 ((fan_in + fan_out) / 2);
               limit = sqrt (3 * scale);
               maxval = limit;
               minval = - limit;
               (k1, g3) = Const (TFloat [] [maxval - minval]) g2;
               (m, g4) = Multiply (Ref random_value) (Ref k1) g3;
               (k2, g5) = Const (TFloat [] [minval]) g4;
               (result, g6) = Add (Ref m) (Ref k2) g5
           in Some (result, g6))"

text \<open>\<^verbatim>\<open>Conv2DTranspose::Conv2DTranspose\<close>, lines 147 to 156.\<close>

definition Conv2DTranspose ::
  "Input \<Rightarrow> Input \<Rightarrow> Input \<Rightarrow> int list \<Rightarrow> string \<Rightarrow> Graph \<Rightarrow> Output \<times> Graph" where
  "Conv2DTranspose input_sizes filter' out_backprop strides padding g0 =
     Conv2DBackpropInput input_sizes filter' out_backprop strides padding g0"

section \<open>The networks\<close>

text \<open>
  The constants \<^verbatim>\<open>NOISE_DIM\<close>, \<^verbatim>\<open>UNITS\<close>, \<^verbatim>\<open>NUM_CHANNELS\<close> and \<^verbatim>\<open>IMAGE_SIZE\<close> come
  from \<^verbatim>\<open>util.h\<close>, which is not part of the excerpt; they are parameters here.
\<close>

record util =
  NOISE_DIM :: int
  UNITS :: int
  NUM_CHANNELS :: int
  IMAGE_SIZE :: int

text \<open>The members of a \<^verbatim>\<open>Generator\<close> object.\<close>

record generator =
  w1 :: Output
  assign_w1 :: Output
  w1_wm :: Output
  assign_w1_wm :: Output
  w1_wv :: Output
  assign_w1_wv :: Output
  filter' :: Output
  assign_filter :: Output
  filter_wm :: Output
  assign_filter_wm :: Output
  filter_wv :: Output
  assign_filter_wv :: Output
  filter2 :: Output
  assign_filter2 :: Output
  filter2_wm :: Output
  assign_filter2_wm :: Output
  filter2_wv :: Output
  assign_filter2_wv :: Output
  filter3 :: Output
  assign_filter3 :: Output
  filter3_wm :: Output
  assign_filter3_wm :: Output
  filter3_wv :: Output
  assign_filter3_wv :: Output
  output' :: Output

text \<open>\<^verbatim>\<open>Generator::Generator\<close>, lines 160 to 288.\<close>

definition Generator :: "util \<Rightarrow> int \<Rightarrow> Graph \<Rightarrow> (generator \<times> Graph) option" where
  "Generator U batch_size g0 = do {
     let (noise, g) = RandomNormal (Imm (TInt32 [2] [batch_size, NOISE_DIM U])) DT_FLOAT g0;
     let (w1, g) = Variable [NOISE_DIM U, UNITS U] DT_FLOAT g;
     let (rate, g) = Const (TFloat [1] [1 / 100]) g;
     let (random_value, g) = RandomNormal (Imm (TInt32 [2] [NOISE_DIM U, UNITS U])) DT_FLOAT g;
     let (m, g) = Multiply (Ref random_value) (Ref rate) g;
     let (assign_w1, g) = Assign (Ref w1) (Ref m) g;
     let (dense, g) = MatMul (Ref noise) (Ref w1) g;
     let (w1_wm, g) = Variable [NOISE_DIM U, UNITS U] DT_FLOAT g;
     let (z, g) = ZerosLike (Ref w1) g;
     let (assign_w1_wm, g) = Assign (Ref w1_wm) (Ref z) g;
     let (w1_wv, g) = Variable [NOISE_DIM U, UNITS U] DT_FLOAT g;
     let (z, g) = ZerosLike (Ref w1) g;
     let (assign_w1_wv, g) = Assign (Ref w1_wv) (Ref z) g;
     let (mean, g) = Const (TFloat [1] [0]) g;
     let (variance, g) = Const (TFloat [1] [1]) g;
     let (offset, g) = Const (TFloat [1] [0]) g;
     let (scale, g) = Const (TFloat [1] [1]) g;
     let (variance_epsilon, g) = Const (TFloat [1] [1 / 1000]) g;
     let (batchnorm, g) =
       BatchNormalization (Ref dense) (Ref mean) (Ref variance) (Ref offset) (Ref scale)
         (Ref variance_epsilon) g;
     let (leakyrelu, g) = LeakyRelu (Ref batchnorm) (3 / 10) g;
     let (reshape1, g) = Reshape (Ref leakyrelu) (Imm (TInt32 [4] [batch_size, 7, 7, 256])) g;
     let (input_sizes, g) = Const (TInt32 [4] [batch_size, 7, 7, 128]) g;
     let (filter', g) = Variable [5, 5, 128, 256] DT_FLOAT g;
     (random_value1, g) \<leftarrow> GlorotUniform [5, 5, 128, 256] g;
     let (assign_filter, g) = Assign (Ref filter') (Ref random_value1) g;
     let (filter_wm, g) = Variable [5, 5, 128, 256] DT_FLOAT g;
     let (z, g) = ZerosLike (Ref filter') g;
     let (assign_filter_wm, g) = Assign (Ref filter_wm) (Ref z) g;
     let (filter_wv, g) = Variable [5, 5, 128, 256] DT_FLOAT g;
     let (z, g) = ZerosLike (Ref filter') g;
     let (assign_filter_wv, g) = Assign (Ref filter_wv) (Ref z) g;
     let (deconv1, g) =
       Conv2DTranspose (Ref input_sizes) (Ref filter') (Ref reshape1) [1, 1, 1, 1] ''SAME'' g;
     let (mean1, g) = Const (TFloat [0] []) g;
     let (variance1, g) = Const (TFloat [0] []) g;
     let (offset1, g) = BroadcastTo (Imm (TFloat [] [0])) (Imm (TInt32 [1] [128])) g;
     let (scale1, g) = BroadcastTo (Imm (TFloat [] [1])) (Imm (TInt32 [1] [128])) g;
     let (batchnorm1, g) =
       FusedBatchNorm (Ref deconv1) (Ref scale1) (Ref offset1) (Ref mean1) (Ref variance1)
         (1 / 1000) g;
     let (leakyrelu1, g) = LeakyRelu (Ref batchnorm1) (3 / 10) g;
     let (input_sizes2, g) = Const (TInt32 [4] [batch_size, 14, 14, 64]) g;
     let (filter2, g) = Variable [5, 5, 64, 128] DT_FLOAT g;
     (random_value2, g) \<leftarrow> GlorotUniform [5, 5, 64, 128] g;
     let (assign_filter2, g) = Assign (Ref filter2) (Ref random_value2) g;
     let (filter2_wm, g) = Variable [5, 5, 64, 128] DT_FLOAT g;
     let (z, g) = ZerosLike (Ref filter2) g;
     let (assign_filter2_wm, g) = Assign (Ref filter2_wm) (Ref z) g;
     let (filter2_wv, g) = Variable [5, 5, 64, 128] DT_FLOAT g;
     let (z, g) = ZerosLike (Ref filter2) g;
     let (assign_filter2_wv, g) = Assign (Ref filter2_wv) (Ref z) g;
     let (deconv2, g) =
       Conv2DTranspose (Ref input_sizes2) (Ref filter2) (Ref leakyrelu1) [1, 2, 2, 1] ''SAME'' g;
     let (offset2, g) = BroadcastTo (Imm (TFloat [] [0])) (Imm (TInt32 [1] [64])) g;
     let (scale2, g) = BroadcastTo (Imm (TFloat [] [1])) (Imm (TInt32 [1] [64])) g;
     let (batchnorm2, g) =
       FusedBatchNorm (Ref deconv2) (Ref scale2) (Ref offset2) (Ref mean1) (Ref variance1)
         (1 / 1000) g;
     let (leakyrelu2, g) = LeakyRelu (Ref batchnorm2) (3 / 10) g;
     let (input_sizes3, g) = Const (TInt32 [4] [batch_size, 28, 28, NUM_CHANNELS U]) g;
     let (filter3, g) = Variable [5, 5, NUM_CHANNELS U, 64] DT_FLOAT g;
     (random_value3, g) \<leftarrow> GlorotUniform [5, 5, NUM_CHANNELS U, 64] g;
     let (assign_filter3, g) = Assign (Ref filter3) (Ref random_value3) g;
     let (filter3_wm, g) = Variable [5, 5, NUM_CHANNELS U, 64] DT_FLOAT g;
     let (z, g) = ZerosLike (Ref filter3) g;
     let (assign_filter3_wm, g) = Assign (Ref filter3_wm) (Ref z) g;
     let (filter3_wv, g) = Variable [5, 5, NUM_CHANNELS U, 64] DT_FLOAT g;
     let (z, g) = ZerosLike (Ref filter3) g;
     let (assign_filter3_wv, g) = Assign (Ref filter3_wv) (Ref z) g;
     let (out, g) =
       Conv2DTranspose (Ref input_sizes3) (Ref filter3) (Ref leakyrelu2) [1, 2, 2, 1] ''SAME'' g;
     Some (\<lparr>w1 = w1, assign_w1 = assign_w1,
            w1_wm = w1_wm, assign_w1_wm = assign_w1_wm,
            w1_wv = w1_wv, assign_w1_wv = assign_w1_wv,
            filter' = filter', assign_filter = assign_filter,
            filter_wm = filter_wm, assign_filter_wm = assign_filter_wm,
            filter_wv = filter_wv, assign_filter_wv = assign_filter_wv,
            filter2 = filter2, assign_filter2 = assign_filter2,
            filter2_wm = filter2_wm, assign_filter2_wm = assign_filter2_wm,
            filter2_wv = filter2_wv, assign_filter2_wv = assign_filter2_wv,
            filter3 = filter3, assign_filter3 = assign_filter3,
            filter3_wm = filter3_wm, assign_filter3_wm = assign_filter3_wm,
            filter3_wv = filter3_wv, assign_filter3_wv = assign_filter3_wv,
            output' = out\<rparr>, g)
   }"


text \<open>
  A member of a \<^verbatim>\<open>Discriminator\<close> object is \<open>None\<close> as long as no constructor has
  assigned it: it holds a default-constructed \<^verbatim>\<open>Output\<close>.
\<close>

record discriminator =
  conv1_weights :: "Output option"
  assign_conv1_weights :: "Output option"
  conv1_biases :: "Output option"
  assign_conv1_biases :: "Output option"
  conv2_weights :: "Output option"
  assign_conv2_weights :: "Output option"
  conv2_biases :: "Output option"
  assign_conv2_biases :: "Output option"
  fc1_weights :: "Output option"
  assign_fc1_weights :: "Output option"
  fc1_biases :: "Output option"
  assign_fc1_biases :: "Output option"
  conv1_wm :: "Output option"
  assign_conv1_wm :: "Output option"
  conv1_wv :: "Output option"
  assign_conv1_wv :: "Output option"
  conv1_bm :: "Output option"
  assign_conv1_bm :: "Output option"
  conv1_bv :: "Output option"
  assign_conv1_bv :: "Output option"
  conv2_wm :: "Output option"
  assign_conv2_wm :: "Output option"
  conv2_wv :: "Output option"
  assign_conv2_wv :: "Output option"
  conv2_bm :: "Output option"
  assign_conv2_bm :: "Output option"
  conv2_bv :: "Output option"
  assign_conv2_bv :: "Output option"
  fc1_wm :: "Output option"
  assign_fc1_wm :: "Output option"
  fc1_wv :: "Output option"
  assign_fc1_wv :: "Output option"
  fc1_bm :: "Output option"
  assign_fc1_bm :: "Output option"
  fc1_bv :: "Output option"
  assign_fc1_bv :: "Output option"
  output' :: "Output option"

fun member :: "Output option \<Rightarrow> Input" where
  "member (Some out) = Ref out"
| "member None = NoNode"

text \<open>
  Lines 312 to 314, and again lines 430 to 432: \<^verbatim>\<open>int s1 = IMAGE_SIZE; s1 = s1 / 4;
  s1 = std::pow(s1, 2) * 128;\<close>. The division truncates; the product is a \<^verbatim>\<open>double\<close>,
  exact whenever it is small enough for an \<^verbatim>\<open>int\<close>, and its conversion to \<^verbatim>\<open>int\<close> is
  undefined when it is not.
\<close>

definition flattened_size :: "int \<Rightarrow> int option" where
  "flattened_size image_size =
     (let s1 = image_size;
          s1 = s1 sdiv 4;
          p = real_of_int s1 ^ 2 * 128
      in if p \<le> 2147483647 then Some (float_to_int p) else None)"

text \<open>
  \<^verbatim>\<open>Discriminator::Discriminator\<close>, lines 291 to 399, in the two parts that its comments
  mark. The first part, lines 294 to 364, declares the weights, the biases and the gradient
  accumulators with their initialisers, and assigns every member but \<^verbatim>\<open>output\<close>.
\<close>

definition discriminator_variables ::
  "util \<Rightarrow> int \<Rightarrow> Graph \<Rightarrow> (discriminator \<times> Graph) option" where
  "discriminator_variables U s1 g0 = do {
     let (conv1_weights, g) = Variable [5, 5, NUM_CHANNELS U, 64] DT_FLOAT g0;
     (random_value, g) \<leftarrow> GlorotUniform [5, 5, NUM_CHANNELS U, 64] g;
     let (assign_conv1_weights, g) = Assign (Ref conv1_weights) (Ref random_value) g;
     let (conv1_biases, g) = Variable [64] DT_FLOAT g;
     let b_zero_tensor = TFloat [64] (replicate 64 0);
     let (assign_conv1_biases, g) = Assign (Ref conv1_biases) (Imm b_zero_tensor) g;
     let (conv2_weights, g) = Variable [5, 5, 64, 128] DT_FLOAT g;
     (random_value2, g) \<leftarrow> GlorotUniform [5, 5, 64, 128] g;
     let (assign_conv2_weights, g) = Assign (Ref conv2_weights) (Ref random_value2) g;
     let (conv2_biases, g) = Variable [128] DT_FLOAT g;
     let (c, g) = Const (TFloat [128] (replicate 128 0)) g;
     let (assign_conv2_biases, g) = Assign (Ref conv2_biases) (Ref c) g;
     let (fc1_weights, g) = Variable [s1, 1] DT_FLOAT g;
     (random_value3, g) \<leftarrow> GlorotUniform [s1, 1] g;
     let (assign_fc1_weights, g) = Assign (Ref fc1_weights) (Ref random_value3) g;
     let (fc1_biases, g) = Variable [1] DT_FLOAT g;
     let (c, g) = Const (TFloat [1] (replicate 1 0)) g;
     let (assign_fc1_biases, g) = Assign (Ref fc1_biases) (Ref c) g;
     let (conv1_wm, g) = Variable [5, 5, NUM_CHANNELS U, 64] DT_FLOAT g;
     let (z, g) = ZerosLike (Ref conv1_weights) g;
     let (assign_conv1_wm, g) = Assign (Ref conv1_wm) (Ref z) g;
     let (conv1_wv, g) = Variable [5, 5, NUM_CHANNELS U, 64] DT_FLOAT g;
     let (z, g) = ZerosLike (Ref conv1_weights) g;
     let (assign_conv1_wv, g) = Assign (Ref conv1_wv) (Ref z) g;
     let (conv1_bm, g) = Variable [64] DT_FLOAT g;
     let (z, g) = ZerosLike (Ref conv1_biases) g;
     let (assign_conv1_bm, g) = Assign (Ref conv1_bm) (Ref z) g;
     let (conv1_bv, g) = Variable [64] DT_FLOAT g;
     let (z, g) = ZerosLike (Ref conv1_biases) g;
     let (assign_conv1_bv, g) = Assign (Ref conv1_bv) (Ref z) g;
     let (conv2_wm, g) = Variable [5, 5, 64, 128] DT_FLOAT g;
     let (z, g) = ZerosLike (Ref conv2_weights) g;
     let (assign_conv2_wm, g) = Assign (Ref conv2_wm) (Ref z) g;
     let (conv2_wv, g) = Variable [5, 5, 64, 128] DT_FLOAT g;
     let (z, g) = ZerosLike (Ref conv2_weights) g;
     let (assign_conv2_wv, g) = Assign (Ref conv2_wv) (Ref z) g;
     let (conv2_bm, g) = Variable [128] DT_FLOAT g;
     let (z, g) = ZerosLike (Ref conv2_biases) g;
     let (assign_conv2_bm, g) = Assign (Ref conv2_bm) (Ref z) g;
     let (conv2_bv, g) = Variable [128] DT_FLOAT g;
     let (z, g) = ZerosLike (Ref conv2_biases) g;
     let (assign_conv2_bv, g) = Assign (Ref conv2_bv) (Ref z) g;
     let (fc1_wm, g) = Variable [s1, 1] DT_FLOAT g;
     let (z, g) = ZerosLike (Ref fc1_weights) g;
     let (assign_fc1_wm, g) = Assign (Ref fc1_wm) (Ref z) g;
     let (fc1_wv, g) = Variable [s1, 1] DT_FLOAT g;
     let (z, g) = ZerosLike (Ref fc1_weights) g;
     let (assign_fc1_wv, g) = Assign (Ref fc1_wv) (Ref z) g;
     let (fc1_bm, g) = Variable [1] DT_FLOAT g;
     let (z, g) = ZerosLike (Ref fc1_biases) g;
     let (assign_fc1_bm, g) = Assign (Ref fc1_bm) (Ref z) g;
     let (fc1_bv, g) = Variable [1] DT_FLOAT g;
     let (z, g) = ZerosLike (Ref fc1_biases) g;
     let (assign_fc1_bv, g) = Assign (Ref fc1_bv) (Ref z) g;
     Some (\<lparr>conv1_weights = Some conv1_weights,
            assign_conv1_weights = Some assign_conv1_weights,
            conv1_biases = Some conv1_biases,
            assign_conv1_biases = Some assign_conv1_biases,
            conv2_weights = Some conv2_weights,
            assign_conv2_weights = Some assign_conv2_weights,
            conv2_biases = Some conv2_biases,
            assign_conv2_biases = Some assign_conv2_biases,
            fc1_weights = Some fc1_weights,
            assign_fc1_weights = Some assign_fc1_weights,
            fc1_biases = Some fc1_biases,
            assign_fc1_biases = Some assign_fc1_biases,
            conv1_wm = Some conv1_wm,
            assign_conv1_wm = Some assign_conv1_wm,
            conv1_wv = Some conv1_wv,
            assign_conv1_wv = Some assign_conv1_wv,
            conv1_bm = Some conv1_bm,
            assign_conv1_bm = Some assign_conv1_bm,
            conv1_bv = Some conv1_bv,
            assign_conv1_bv = Some assign_conv1_bv,
            conv2_wm = Some conv2_wm,
            assign_conv2_wm = Some assign_conv2_wm,
            conv2_wv = Some conv2_wv,
            assign_conv2_wv = Some assign_conv2_wv,
            conv2_bm = Some conv2_bm,
            assign_conv2_bm = Some assign_conv2_bm,
            conv2_bv = Some conv2_bv,
            assign_conv2_bv = Some assign_conv2_bv,
            fc1_wm = Some fc1_wm,
            assign_fc1_wm = Some assign_fc1_wm,
            fc1_wv = Some fc1_wv,
            assign_fc1_wv = Some assign_fc1_wv,
            fc1_bm = Some fc1_bm,
            assign_fc1_bm = Some assign_fc1_bm,
            fc1_bv = Some fc1_bv,
            assign_fc1_bv = Some assign_fc1_bv,
            output' = None\<rparr>, g)
   }"

text \<open>
  The second part, from \<^verbatim>\<open>Convnet Model begin\<close> to \<^verbatim>\<open>Convnet Model ends\<close>: lines 366
  to 398, and again lines 405 to 441 in the weight-sharing overload, which differs only in
  the object whose members it reads.
\<close>

definition convnet_model ::
  "Input \<Rightarrow> Input \<Rightarrow> Input \<Rightarrow> Input \<Rightarrow> Input \<Rightarrow> Input \<Rightarrow> Input \<Rightarrow> int \<Rightarrow> int \<Rightarrow> Graph
     \<Rightarrow> Output \<times> Graph" where
  "convnet_model inputs' conv1_weights' conv1_biases' conv2_weights' conv2_biases' fc1_weights'
       fc1_biases' batch_size s1 g0 =
     (let (conv2d_1, g) = Conv2D inputs' conv1_weights' [1, 2, 2, 1] ''SAME'' g0;
          (b, g) = BiasAdd (Ref conv2d_1) conv1_biases' g;
          (relu_1, g) = LeakyRelu (Ref b) (3 / 10) g;
          (dropout_1, g) = Dropout (Ref relu_1) (float_to_int (3 / 10)) g;
          (conv2d_2, g) = Conv2D (Ref dropout_1) conv2_weights' [1, 2, 2, 1] ''SAME'' g;
          (b, g) = BiasAdd (Ref conv2d_2) conv2_biases' g;
          (relu_2, g) = LeakyRelu (Ref b) (3 / 10) g;
          (dropout_2, g) = Dropout (Ref relu_2) (float_to_int (3 / 10)) g;
          (reshape1, g) = Reshape (Ref dropout_2) (Imm (TInt32 [2] [batch_size, s1])) g;
          (m, g) = MatMul (Ref reshape1) fc1_weights' g
      in BiasAdd (Ref m) fc1_biases' g)"

definition Discriminator ::
  "util \<Rightarrow> Input \<Rightarrow> int \<Rightarrow> Graph \<Rightarrow> (discriminator \<times> Graph) option" where
  "Discriminator U inputs' batch_size g0 = do {
     s1 \<leftarrow> flattened_size (IMAGE_SIZE U);
     (this, g) \<leftarrow> discriminator_variables U s1 g0;
     let (out, g) =
       convnet_model inputs' (member (conv1_weights this)) (member (conv1_biases this))
         (member (conv2_weights this)) (member (conv2_biases this))
         (member (fc1_weights this)) (member (fc1_biases this)) batch_size s1 g;
     Some (this\<lparr>output' := Some out\<rparr>, g)
   }"

text \<open>
  The weight-sharing overload, lines 401 to 442. It reads the weights of \<open>disc\<close> and
  assigns no member but \<^verbatim>\<open>output\<close>.
\<close>

definition Discriminator_shared ::
  "util \<Rightarrow> discriminator \<Rightarrow> Input \<Rightarrow> int \<Rightarrow> Graph \<Rightarrow> (discriminator \<times> Graph) option" where
  "Discriminator_shared U disc inputs' batch_size g0 = do {
     s1 \<leftarrow> flattened_size (IMAGE_SIZE U);
     let (out, g) =
       convnet_model inputs' (member (conv1_weights disc)) (member (conv1_biases disc))
         (member (conv2_weights disc)) (member (conv2_biases disc))
         (member (fc1_weights disc)) (member (fc1_biases disc)) batch_size s1 g0;
     Some (\<lparr>conv1_weights = None,
            assign_conv1_weights = None,
            conv1_biases = None,
            assign_conv1_biases = None,
            conv2_weights = None,
            assign_conv2_weights = None,
            conv2_biases = None,
            assign_conv2_biases = None,
            fc1_weights = None,
            assign_fc1_weights = None,
            fc1_biases = None,
            assign_fc1_biases = None,
            conv1_wm = None,
            assign_conv1_wm = None,
            conv1_wv = None,
            assign_conv1_wv = None,
            conv1_bm = None,
            assign_conv1_bm = None,
            conv1_bv = None,
            assign_conv1_bv = None,
            conv2_wm = None,
            assign_conv2_wm = None,
            conv2_wv = None,
            assign_conv2_wv = None,
            conv2_bm = None,
            assign_conv2_bm = None,
            conv2_bv = None,
            assign_conv2_bv = None,
            fc1_wm = None,
            assign_fc1_wm = None,
            fc1_wv = None,
            assign_fc1_wv = None,
            fc1_bm = None,
            assign_fc1_bm = None,
            fc1_bv = None,
            assign_fc1_bv = None,
            output' = Some out\<rparr>, g)
   }"


section \<open>Reading a graph\<close>

text \<open>
  The computation that a handle stands for is the expression obtained by following the
  inputs of its node backwards. Variables are the state of the network: they stay leaves
  that carry the identity of their node, so that two variables of the same shape remain
  different. A handle that points outside the graph reads as \<open>Dangling\<close>.
\<close>

datatype dexp =
    Lit tensor
  | Nd opkind "dexp list"
  | VarRef Output "int list" DataType
  | Dangling

fun var_shape :: "node \<Rightarrow> (int list \<times> DataType) option" where
  "var_shape (Node (Op_Variable sh dt) ins) = Some (sh, dt)"
| "var_shape (Node k ins) = None"

fun tree_of :: "Graph \<Rightarrow> Input \<Rightarrow> dexp" where
  "tree_of g (Imm t) = Lit t"
| "tree_of g NoNode = Dangling"
| "tree_of [] (Ref j) = Dangling"
| "tree_of (n # g) (Ref j) =
     (if j = length g then
        (case var_shape n of
           Some (sh, dt) \<Rightarrow> VarRef j sh dt
         | None \<Rightarrow> Nd (kind n) (map (tree_of g) (inputs n)))
      else tree_of g (Ref j))"

text \<open>A handle is valid in a graph when its node is there.\<close>

fun valid :: "Graph \<Rightarrow> Input \<Rightarrow> bool" where
  "valid g (Ref j) = (j < length g)"
| "valid g (Imm t) = True"
| "valid g NoNode = False"

text \<open>The node behind a handle.\<close>

fun node_at :: "Graph \<Rightarrow> Output \<Rightarrow> node option" where
  "node_at [] j = None"
| "node_at (n # g) j = (if j = length g then Some n else node_at g j)"

section \<open>What a graph computes\<close>

text \<open>
  Modelled from the spec: the meaning of the framework's elementwise operations on one
  element of their operands (the kernels are not part of the excerpt). An operand outside
  the domain of the operation (division by zero, the reciprocal square root of a number
  that is not positive, the logarithm of a number that is not positive) has no value here.
  A boolean is the number 1 or 0. Every other node is opaque: its value at the element is
  given by a valuation \<open>\<rho>\<close>, which is where the samples of the random nodes come from.
  A constant of a single element is broadcast.
\<close>

fun unary_op :: "opkind \<Rightarrow> real \<Rightarrow> real option" where
  "unary_op Op_Rsqrt x = (if x \<le> 0 then None else Some (1 / sqrt x))"
| "unary_op Op_Floor x = Some (of_int \<lfloor>x\<rfloor>)"
| "unary_op Op_Negate x = Some (- x)"
| "unary_op Op_Exp x = Some (exp x)"
| "unary_op Op_Log1p x = (if x \<le> - 1 then None else Some (ln (1 + x)))"
| "unary_op (Op_Cast DT_FLOAT) x = Some x"
| "unary_op Op_ZerosLike x = Some 0"
| "unary_op _ x = None"

fun binary_op :: "opkind \<Rightarrow> real \<Rightarrow> real \<Rightarrow> real option" where
  "binary_op Op_Add x y = Some (x + y)"
| "binary_op Op_Sub x y = Some (x - y)"
| "binary_op Op_Multiply x y = Some (x * y)"
| "binary_op Op_Div x y = (if y = 0 then None else Some (x / y))"
| "binary_op Op_GreaterEqual x y = Some (if x \<ge> y then 1 else 0)"
| "binary_op _ x y = None"

fun ternary_op :: "opkind \<Rightarrow> real \<Rightarrow> real \<Rightarrow> real \<Rightarrow> real option" where
  "ternary_op Op_SelectV2 c t e = Some (if c \<noteq> 0 then t else e)"
| "ternary_op _ c t e = None"

fun apply_op :: "opkind \<Rightarrow> real list \<Rightarrow> real option" where
  "apply_op k [x] = unary_op k x"
| "apply_op k [x, y] = binary_op k x y"
| "apply_op k [c, t, e] = ternary_op k c t e"
| "apply_op k vs = None"

fun elementwise :: "opkind \<Rightarrow> bool" where
  "elementwise Op_Add = True"
| "elementwise Op_Sub = True"
| "elementwise Op_Multiply = True"
| "elementwise Op_Div = True"
| "elementwise Op_GreaterEqual = True"
| "elementwise Op_Rsqrt = True"
| "elementwise Op_Floor = True"
| "elementwise Op_Negate = True"
| "elementwise Op_Exp = True"
| "elementwise Op_Log1p = True"
| "elementwise (Op_Cast dt) = True"
| "elementwise Op_ZerosLike = True"
| "elementwise Op_SelectV2 = True"
| "elementwise _ = False"

fun scalar_of :: "tensor \<Rightarrow> real option" where
  "scalar_of (TFloat sh [v]) = Some v"
| "scalar_of _ = None"

fun const_of :: "opkind \<Rightarrow> tensor option" where
  "const_of (Op_Const t) = Some t"
| "const_of _ = None"

fun ev :: "(dexp \<Rightarrow> real option) \<Rightarrow> dexp \<Rightarrow> real option" where
  "ev \<rho> (Nd k ts) =
     (if elementwise k then Option.bind (those (map (ev \<rho>) ts)) (apply_op k)
      else case Option.bind (const_of k) scalar_of of
             Some v \<Rightarrow> Some v
           | None \<Rightarrow> \<rho> (Nd k ts))"
| "ev \<rho> (Lit t) = (case scalar_of t of Some v \<Rightarrow> Some v | None \<Rightarrow> \<rho> (Lit t))"
| "ev \<rho> t = \<rho> t"

section \<open>The formulas of the comments\<close>

text \<open>
  The expression that the Python comment above
  \<^verbatim>\<open>SigmoidCrossEntropyWithLogits\<close> describes, for labels \<open>z\<close> and logits \<open>x\<close>.
\<close>

definition sigmoid_cross_entropy_tree :: "dexp \<Rightarrow> dexp \<Rightarrow> dexp" where
  "sigmoid_cross_entropy_tree z x =
     (let zeros = Nd Op_ZerosLike [x];
          cond = Nd Op_GreaterEqual [x, zeros]
      in Nd Op_Add
           [Nd Op_Sub [Nd Op_SelectV2 [cond, x, zeros], Nd Op_Multiply [x, z]],
            Nd Op_Log1p [Nd Op_Exp [Nd Op_SelectV2 [cond, Nd Op_Negate [x], x]]]])"

text \<open>
  The expression of the Python comment above \<^verbatim>\<open>BatchNormalization\<close>, with a scale
  given: \<^verbatim>\<open>inv = rsqrt(variance + variance_epsilon)\<close>, \<^verbatim>\<open>inv *= scale\<close>, and the result
  \<^verbatim>\<open>x * cast(inv) + cast(offset - mean * inv)\<close>.
\<close>

definition batch_normalization_reference ::
  "dexp \<Rightarrow> dexp \<Rightarrow> dexp \<Rightarrow> dexp \<Rightarrow> dexp \<Rightarrow> dexp \<Rightarrow> dexp" where
  "batch_normalization_reference x mean variance offset scale variance_epsilon =
     (let inv = Nd Op_Rsqrt [Nd Op_Add [variance, variance_epsilon]];
          inv = Nd Op_Multiply [inv, scale]
      in Nd Op_Add
           [Nd Op_Multiply [x, Nd (Op_Cast DT_FLOAT) [inv]],
            Nd (Op_Cast DT_FLOAT) [Nd Op_Sub [offset, Nd Op_Multiply [mean, inv]]]])"

text \<open>The same expression without the multiplication by the scale.\<close>

definition batch_normalization_code_tree :: "dexp \<Rightarrow> dexp \<Rightarrow> dexp \<Rightarrow> dexp \<Rightarrow> dexp \<Rightarrow> dexp" where
  "batch_normalization_code_tree x mean variance offset variance_epsilon =
     (let inv = Nd Op_Rsqrt [Nd Op_Add [variance, variance_epsilon]]
      in Nd Op_Add
           [Nd Op_Multiply [x, Nd (Op_Cast DT_FLOAT) [inv]],
            Nd (Op_Cast DT_FLOAT) [Nd Op_Sub [offset, Nd Op_Multiply [mean, inv]]]])"

text \<open>
  Inverted dropout with keep probability \<open>keep_prob\<close>: the input divided by the keep
  probability, times the floor of a uniform sample plus the keep probability.
\<close>

definition dropout_tree :: "real \<Rightarrow> dexp \<Rightarrow> dexp" where
  "dropout_tree keep_prob x =
     Nd Op_Multiply
       [Nd Op_Div [x, Nd (Op_Const (TFloat [1] [keep_prob])) []],
        Nd Op_Floor
          [Nd Op_Add
             [Nd (Op_RandomUniform DT_FLOAT) [Nd Op_Shape [x]],
              Nd (Op_Const (TFloat [1] [keep_prob])) []]]]"

text \<open>
  The Python comment in \<^verbatim>\<open>GlorotUniform\<close>: \<^verbatim>\<open>scale /= max(1., (fan_in + fan_out) / 2.)\<close>,
  \<^verbatim>\<open>limit = sqrt(3.0 * scale)\<close>, and the result \<^verbatim>\<open>rnd * (maxval - minval) + minval\<close> with
  \<^verbatim>\<open>maxval = limit\<close> and \<^verbatim>\<open>minval = -limit\<close>.
\<close>

definition glorot_limit :: "real \<Rightarrow> real \<Rightarrow> real" where
  "glorot_limit fan_in fan_out = sqrt (3 * (1 / max 1 ((fan_in + fan_out) / 2)))"


text \<open>
  Fan-in and fan-out as the code takes them from a shape: elements 0 and 1, or, for a
  shape of length 4, their product times element 2 and times element 3.
\<close>

definition glorot_fan_in :: "int list \<Rightarrow> real" where
  "glorot_fan_in shape =
     (if length shape = 4
      then real_of_int (shape ! 0) * real_of_int (shape ! 1) * real_of_int (shape ! 2)
      else real_of_int (shape ! 0))"

definition glorot_fan_out :: "int list \<Rightarrow> real" where
  "glorot_fan_out shape =
     (if length shape = 4
      then real_of_int (shape ! 0) * real_of_int (shape ! 1) * real_of_int (shape ! 3)
      else real_of_int (shape ! 1))"

section \<open>Observing what a constructor built\<close>

text \<open>The nodes that were built on the way from a graph \<open>g\<close> to a later graph \<open>g'\<close>.\<close>

definition built :: "Graph \<Rightarrow> Graph \<Rightarrow> Graph" where
  "built g g' = take (length g' - length g) g'"

text \<open>A later graph keeps the nodes of an earlier one in their places.\<close>

definition extends :: "Graph \<Rightarrow> Graph \<Rightarrow> bool" where
  "extends g g' = (length g \<le> length g' \<and> drop (length g' - length g) g' = g)"

text \<open>
  The only operation in the file that writes a variable is \<^verbatim>\<open>Assign\<close>; its first input is
  the variable written.
\<close>

fun assign_target :: "node \<Rightarrow> Input option" where
  "assign_target (Node Op_Assign (r # vs)) = Some r"
| "assign_target (Node k ins) = None"

definition writers :: "Graph \<Rightarrow> Output \<Rightarrow> Graph" where
  "writers ns v = filter (\<lambda>n. assign_target n = Some (Ref v)) ns"

fun assign_parts :: "node \<Rightarrow> (Input \<times> Input) option" where
  "assign_parts (Node Op_Assign [r, v]) = Some (r, v)"
| "assign_parts (Node k ins) = None"

fun handle :: "Input \<Rightarrow> Output option" where
  "handle (Ref v) = Some v"
| "handle (Imm t) = None"
| "handle NoNode = None"

text \<open>
  An accumulator \<open>acc\<close> with initialiser \<open>assign\<close> belongs to the weight \<open>weight\<close>: it is
  a variable built after \<open>g\<close> with the shape and type of the weight, the initialiser is
  an Assign of a ZerosLike of the weight to it, and among the nodes built after \<open>g\<close>
  the initialiser is the only one that writes it.
\<close>

definition zero_initialised ::
  "Graph \<Rightarrow> Graph \<Rightarrow> Output option \<Rightarrow> Output option \<Rightarrow> Output option \<Rightarrow> bool" where
  "zero_initialised g g' acc assign weight =
     (case (acc, assign, weight) of
        (Some a, Some s, Some w) \<Rightarrow>
          length g \<le> a
          \<and> Option.bind (node_at g' a) var_shape \<noteq> None
          \<and> Option.bind (node_at g' a) var_shape = Option.bind (node_at g' w) var_shape
          \<and> (case Option.bind (node_at g' s) assign_parts of
               Some (r, v) \<Rightarrow>
                 r = Ref a
                 \<and> Option.bind (handle v) (node_at g') = Some (Node Op_ZerosLike [Ref w])
             | None \<Rightarrow> False)
          \<and> map Some (writers (built g g') a) = [node_at g' s]
      | _ \<Rightarrow> False)"

text \<open>Every Assign among the nodes \<open>ns\<close> writes a variable that was built after \<open>g\<close>.\<close>

definition writes_own :: "Graph \<Rightarrow> Graph \<Rightarrow> bool" where
  "writes_own g ns =
     list_all (\<lambda>n. case n of
                      Node k ins \<Rightarrow>
                        (if k = Op_Assign
                         then (case ins of Ref v # vs \<Rightarrow> length g \<le> v | _ \<Rightarrow> False)
                         else True)) ns"

text \<open>A member holds a variable of the given shape.\<close>

definition is_variable :: "Graph \<Rightarrow> Output option \<Rightarrow> int list \<Rightarrow> bool" where
  "is_variable g m sh =
     (case m of
        Some v \<Rightarrow> node_at g v = Some (Node (Op_Variable sh DT_FLOAT) [])
      | None \<Rightarrow> False)"

fun is_deconv :: "node \<Rightarrow> bool" where
  "is_deconv (Node (Op_Conv2DBackpropInput strides padding) ins) = True"
| "is_deconv (Node k ins) = False"

text \<open>
  The forward computation of the Generator: noise, dense layer, batch normalization, leaky
  ReLU, reshape, and three transposed convolutions, the first two each followed by a
  fused batch normalization and a leaky ReLU.
\<close>

definition generator_tree :: "util \<Rightarrow> int \<Rightarrow> Output \<Rightarrow> Output \<Rightarrow> Output \<Rightarrow> Output \<Rightarrow> dexp" where
  "generator_tree U batch_size w f1 f2 f3 =
     (let float1 = (\<lambda>v. Nd (Op_Const (TFloat [1] [v])) []);
          sizes = (\<lambda>vs. Nd (Op_Const (TInt32 [4] vs)) []);
          empty = Nd (Op_Const (TFloat [0] [])) [];
          fill = (\<lambda>v n. Nd Op_BroadcastTo [Lit (TFloat [] [v]), Lit (TInt32 [1] [n])]);
          noise = Nd (Op_RandomNormal DT_FLOAT) [Lit (TInt32 [2] [batch_size, NOISE_DIM U])];
          dense = Nd Op_MatMul [noise, VarRef w [NOISE_DIM U, UNITS U] DT_FLOAT];
          batchnorm = batch_normalization_code_tree dense (float1 0) (float1 1) (float1 0)
                        (float1 (1 / 1000));
          leakyrelu = Nd (Op_LeakyRelu (3 / 10)) [batchnorm];
          reshape1 = Nd Op_Reshape [leakyrelu, Lit (TInt32 [4] [batch_size, 7, 7, 256])];
          deconv1 = Nd (Op_Conv2DBackpropInput [1, 1, 1, 1] ''SAME'')
                      [sizes [batch_size, 7, 7, 128], VarRef f1 [5, 5, 128, 256] DT_FLOAT,
                       reshape1];
          batchnorm1 = Nd (Op_FusedBatchNorm (1 / 1000))
                         [deconv1, fill 1 128, fill 0 128, empty, empty];
          leakyrelu1 = Nd (Op_LeakyRelu (3 / 10)) [batchnorm1];
          deconv2 = Nd (Op_Conv2DBackpropInput [1, 2, 2, 1] ''SAME'')
                      [sizes [batch_size, 14, 14, 64], VarRef f2 [5, 5, 64, 128] DT_FLOAT,
                       leakyrelu1];
          batchnorm2 = Nd (Op_FusedBatchNorm (1 / 1000))
                         [deconv2, fill 1 64, fill 0 64, empty, empty];
          leakyrelu2 = Nd (Op_LeakyRelu (3 / 10)) [batchnorm2]
      in Nd (Op_Conv2DBackpropInput [1, 2, 2, 1] ''SAME'')
           [sizes [batch_size, 28, 28, NUM_CHANNELS U],
            VarRef f3 [5, 5, NUM_CHANNELS U, 64] DT_FLOAT, leakyrelu2])"


text \<open>
  The forward computation of the Discriminator on an input \<open>x\<close>: two stages of stride-2
  SAME convolution, bias, leaky ReLU with alpha 0.3 and a Dropout node, a reshape to
  \<open>[batch_size, s1]\<close>, and the dense classifier.
\<close>

definition discriminator_stage :: "real \<Rightarrow> dexp \<Rightarrow> dexp \<Rightarrow> dexp \<Rightarrow> dexp" where
  "discriminator_stage keep_prob x weights biases =
     dropout_tree keep_prob
       (Nd (Op_LeakyRelu (3 / 10))
          [Nd Op_BiasAdd [Nd (Op_Conv2D [1, 2, 2, 1] ''SAME'') [x, weights], biases]])"

definition discriminator_tree ::
  "real \<Rightarrow> int \<Rightarrow> int \<Rightarrow> dexp \<Rightarrow> dexp \<Rightarrow> dexp \<Rightarrow> dexp \<Rightarrow> dexp \<Rightarrow> dexp \<Rightarrow> dexp \<Rightarrow> dexp" where
  "discriminator_tree keep_prob batch_size s1 x cw1 cb1 cw2 cb2 fw fb =
     (let dropout_1 = discriminator_stage keep_prob x cw1 cb1;
          dropout_2 = discriminator_stage keep_prob dropout_1 cw2 cb2;
          reshape1 = Nd Op_Reshape [dropout_2, Lit (TInt32 [2] [batch_size, s1])]
      in Nd Op_BiasAdd [Nd Op_MatMul [reshape1, fw], fb])"

fun is_conv :: "node \<Rightarrow> bool" where
  "is_conv (Node (Op_Conv2D strides padding) ins) = True"
| "is_conv (Node k ins) = False"

text \<open>None of the nodes \<open>ns\<close> is an Assign.\<close>

definition no_assign :: "Graph \<Rightarrow> bool" where
  "no_assign ns = (filter (\<lambda>n. kind n = Op_Assign) ns = [])"

section \<open>Properties\<close>

lemma tree_of_Cons_old [simp]:
  assumes "valid g i"
  shows "tree_of (n # g) i = tree_of g i"
  using assms by (cases i) simp_all

lemma valid_Cons [simp]: "valid g i \<Longrightarrow> valid (n # g) i"
  by (cases i) simp_all

lemma SigmoidCrossEntropyWithLogits_tree:
  assumes "valid g labels" "valid g logits"
  shows "case SigmoidCrossEntropyWithLogits labels logits g of (out, g') \<Rightarrow>
           tree_of g' (Ref out) = sigmoid_cross_entropy_tree (tree_of g labels) (tree_of g logits)"
  using assms
  by (simp add: SigmoidCrossEntropyWithLogits_def op_defs 
        sigmoid_cross_entropy_tree_def Let_def)

lemma ev_sigmoid_cross_entropy_tree:
  assumes "ev \<rho> x = Some xv" "ev \<rho> z = Some zv"
  shows "ev \<rho> (sigmoid_cross_entropy_tree z x) =
           Some (max xv 0 - xv * zv + ln (1 + exp (- \<bar>xv\<bar>)))"
proof -
  have pos: "\<not> exp (- \<bar>xv\<bar>) \<le> - 1" "\<not> exp xv \<le> - 1" "\<not> exp (- xv) \<le> - 1"
    using exp_gt_zero [of "- \<bar>xv\<bar>"] exp_gt_zero [of xv] exp_gt_zero [of "- xv"]
    by linarith+
  show ?thesis
    using assms pos by (simp add: sigmoid_cross_entropy_tree_def Let_def max_def abs_if)
qed

text \<open>
  C4. For all labels \<open>z\<close> and logits \<open>x\<close>, SigmoidCrossEntropyWithLogits builds
  select(x >= 0, x, 0) - x * z + log1p(exp(select(x >= 0, -x, x))), with 0 the ZerosLike
  of x, and at every element where x and z have values that expression has the value
  max(x, 0) - x * z + log(1 + exp(-abs(x))).
\<close>

theorem SigmoidCrossEntropyWithLogits_formula:
  assumes "valid g labels" and "valid g logits"
  shows "case SigmoidCrossEntropyWithLogits labels logits g of (out, g') \<Rightarrow>
           (let x = tree_of g logits; z = tree_of g labels;
                zeros = Nd Op_ZerosLike [x]; cond = Nd Op_GreaterEqual [x, zeros]
            in tree_of g' (Ref out) =
                 Nd Op_Add
                   [Nd Op_Sub [Nd Op_SelectV2 [cond, x, zeros], Nd Op_Multiply [x, z]],
                    Nd Op_Log1p [Nd Op_Exp [Nd Op_SelectV2 [cond, Nd Op_Negate [x], x]]]]
               \<and> (\<forall>\<rho> xv zv. ev \<rho> x = Some xv \<longrightarrow> ev \<rho> z = Some zv \<longrightarrow>
                     ev \<rho> (tree_of g' (Ref out)) =
                       Some (max xv 0 - xv * zv + ln (1 + exp (- \<bar>xv\<bar>)))))"
  using SigmoidCrossEntropyWithLogits_tree [OF assms] ev_sigmoid_cross_entropy_tree
  by (auto simp add: Let_def sigmoid_cross_entropy_tree_def split: prod.splits)

theorem SigmoidCrossEntropyWithLogits_formula_witness:
  "case SigmoidCrossEntropyWithLogits (Imm (TFloat [] [1])) (Imm (TFloat [] [- 2])) [] of
     (out, g') \<Rightarrow>
       valid [] (Imm (TFloat [] [1])) \<and> valid [] (Imm (TFloat [] [- 2]))
       \<and> ev (\<lambda>t. None) (tree_of g' (Ref out)) = Some (2 + ln (1 + exp (- 2)))"
proof -
  have "\<not> exp (- 2 :: real) \<le> - 1"
    using exp_gt_zero [of "- 2 :: real"] by linarith
  then show ?thesis
    using SigmoidCrossEntropyWithLogits_formula
            [of "[]" "Imm (TFloat [] [1])" "Imm (TFloat [] [- 2])"]
    by (simp add: Let_def split: prod.splits)
qed

lemma BatchNormalization_tree:
  assumes "valid g x" "valid g mean" "valid g variance" "valid g offset" "valid g variance_epsilon"
  shows "case BatchNormalization x mean variance offset scale variance_epsilon g of (out, g') \<Rightarrow>
           tree_of g' (Ref out) =
             batch_normalization_code_tree (tree_of g x) (tree_of g mean) (tree_of g variance)
               (tree_of g offset) (tree_of g variance_epsilon)"
  using assms
  by (simp add: BatchNormalization_def op_defs  batch_normalization_code_tree_def Let_def)

lemma Dropout_tree:
  assumes "valid g x"
  shows "case Dropout x rate g of (out, g') \<Rightarrow>
           tree_of g' (Ref out) = dropout_tree (real_of_int (1 - rate)) (tree_of g x)"
  using assms
  by (simp add: Dropout_def op_defs  dropout_tree_def Let_def)

lemma GlorotUniform_result:
  "GlorotUniform shape g =
     (if length shape < 2 then None
      else Some (Suc (Suc (Suc (Suc (Suc (length g))))),
        [Node Op_Add [Ref (Suc (Suc (Suc (length g)))), Ref (Suc (Suc (Suc (Suc (length g)))))],
         Node (Op_Const (TFloat []
           [- glorot_limit (glorot_fan_in shape) (glorot_fan_out shape)])) [],
         Node Op_Multiply [Ref (Suc (length g)), Ref (Suc (Suc (length g)))],
         Node (Op_Const (TFloat []
           [glorot_limit (glorot_fan_in shape) (glorot_fan_out shape)
            - (- glorot_limit (glorot_fan_in shape) (glorot_fan_out shape))])) [],
         Node (Op_RandomUniform DT_FLOAT) [Ref (length g)],
         Node (Op_Const (TInt64 [int (length shape)] shape)) []] @ g))"
  by (simp add: GlorotUniform_def op_defs Let_def glorot_limit_def glorot_fan_in_def
        glorot_fan_out_def)






text \<open>
  C1 (the code departs from it). The comment above BatchNormalization multiplies
  \<open>inv\<close> by the scale; the code never reads its \<open>scale\<close> argument. With x = 3,
  mean = 1, variance = 1, offset = 5, scale = 2 and variance_epsilon = 0 the graph that the
  code builds has the value 3 * 1 + (5 - 1 * 1) = 7, the formula of the comment the value
  3 * 2 + (5 - 1 * 2) = 9.
\<close>

theorem BatchNormalization_drops_scale:
  "(case BatchNormalization (Imm (TFloat [] [3])) (Imm (TFloat [] [1])) (Imm (TFloat [] [1]))
           (Imm (TFloat [] [5])) (Imm (TFloat [] [2])) (Imm (TFloat [] [0])) [] of
      (out, g') \<Rightarrow> ev (\<lambda>t. None) (tree_of g' (Ref out)) = Some 7)
   \<and> ev (\<lambda>t. None)
        (batch_normalization_reference (Lit (TFloat [] [3])) (Lit (TFloat [] [1]))
           (Lit (TFloat [] [1])) (Lit (TFloat [] [5])) (Lit (TFloat [] [2]))
           (Lit (TFloat [] [0]))) = Some 9"
  by (simp add: BatchNormalization_def op_defs
        batch_normalization_reference_def Let_def)

text \<open>
  C2 (the code departs from it). The rate 0.3 reaches Dropout through a parameter of type
  \<^verbatim>\<open>int\<close> and becomes 0, so the keep probability is 1: the node divides its input by 1
  and multiplies by floor(u + 1), which is 1 for every uniform sample u. On the input 5
  with the sample 1/4, below the rate 0.3, the element is kept and the value is 5.
\<close>

theorem Dropout_rate_truncated:
  "float_to_int (3 / 10) = 0
   \<and> (case Dropout (Imm (TFloat [] [5])) (float_to_int (3 / 10)) [] of
        (out, g') \<Rightarrow>
          tree_of g' (Ref out) = dropout_tree 1 (Lit (TFloat [] [5]))
          \<and> ev (\<lambda>t. Some (1 / 4)) (tree_of g' (Ref out)) = Some 5)"
  by (simp add: float_to_int_def Dropout_def op_defs
        dropout_tree_def Let_def)





text \<open>
  C8. The Conv2DTranspose helper is the framework's Conv2DBackpropInput on the same
  arguments in the same order: it leaves the same graph and the same handle, that graph is
  the old one with exactly one node added, and the new node is a Conv2DBackpropInput
  node with the given strides and padding whose inputs are input_sizes, filter and
  out_backprop in that order.
\<close>

theorem Conv2DTranspose_is_Conv2DBackpropInput:
  "Conv2DTranspose input_sizes filt out_backprop strides padding g =
     Conv2DBackpropInput input_sizes filt out_backprop strides padding g
   \<and> Conv2DTranspose input_sizes filt out_backprop strides padding g =
       (length g,
        Node (Op_Conv2DBackpropInput strides padding) [input_sizes, filt, out_backprop] # g)"
  by (simp add: Conv2DTranspose_def Conv2DBackpropInput_def add_node_def)

lemma Generator_tree:
  "case Generator U batch_size g of
     None \<Rightarrow> False
   | Some (gen, g') \<Rightarrow>
       tree_of g' (Ref (generator.output' gen)) =
         generator_tree U batch_size (w1 gen) (filter' gen) (filter2 gen) (filter3 gen)"
  by (simp add: Generator_def GlorotUniform_result BatchNormalization_def Conv2DTranspose_def
        op_defs Let_def generator_tree_def batch_normalization_code_tree_def)



lemma flattened_size_eq:
  assumes "(image_size sdiv 4) ^ 2 * 128 \<le> 2147483647"
  shows "flattened_size image_size = Some ((image_size sdiv 4) ^ 2 * 128)"
proof -
  have "real_of_int (image_size sdiv 4) ^ 2 * 128 = real_of_int ((image_size sdiv 4) ^ 2 * 128)"
    by simp
  moreover have "real_of_int ((image_size sdiv 4) ^ 2 * 128) \<le> 2147483647"
    using assms by linarith
  moreover have "0 \<le> (image_size sdiv 4) ^ 2 * 128" by simp
  ultimately show ?thesis
    unfolding flattened_size_def Let_def float_to_int_def
    by (simp del: of_int_mult of_int_power)
qed

lemma extends_refl: "extends g g"
  by (simp add: extends_def)

lemma extends_Cons: "extends g g' \<Longrightarrow> extends g (n # g')"
  by (auto simp add: extends_def Suc_diff_le)

lemma extends_append: "extends g g' \<Longrightarrow> \<exists>h. g' = h @ g"
  unfolding extends_def by (metis append_take_drop_id)

lemma valid_append: "valid g i \<Longrightarrow> valid (h @ g) i"
  by (cases i) simp_all

lemma tree_of_append_old: "valid g i \<Longrightarrow> tree_of (h @ g) i = tree_of g i"
  by (induction h) (simp_all add: valid_append)

lemma tree_of_extends: "extends g g' \<Longrightarrow> valid g i \<Longrightarrow> tree_of g' i = tree_of g i"
  using extends_append tree_of_append_old by blast

lemma valid_extends: "extends g g' \<Longrightarrow> valid g i \<Longrightarrow> valid g' i"
  using extends_append valid_append by blast

lemma extends_trans: "extends g g' \<Longrightarrow> extends g' g'' \<Longrightarrow> extends g g''"
proof -
  assume "extends g g'" "extends g' g''"
  then obtain h h' where "g' = h @ g" "g'' = h' @ g'"
    using extends_append by blast
  then have "g'' = (h' @ h) @ g" by simp
  then show ?thesis by (simp add: extends_def del: append_assoc)
qed

lemma node_at_length: "node_at g v = Some n \<Longrightarrow> v < length g"
  by (induction g) (auto split: if_splits)

lemma node_at_tree:
  "node_at g v = Some (Node (Op_Variable sh dt) ins) \<Longrightarrow> tree_of g (Ref v) = VarRef v sh dt"
  by (induction g) (auto split: if_splits)

lemma is_variable_valid: "is_variable g m sh \<Longrightarrow> valid g (member m)"
  by (auto simp add: is_variable_def split: option.splits dest: node_at_length)

lemma convnet_model_tree:
  assumes "valid g x" "valid g cw1" "valid g cb1" "valid g cw2" "valid g cb2" "valid g fw"
    "valid g fb"
  shows "case convnet_model x cw1 cb1 cw2 cb2 fw fb batch_size s1 g of
     (out, g') \<Rightarrow>
       tree_of g' (Ref out) =
         discriminator_tree 1 batch_size s1 (tree_of g x) (tree_of g cw1) (tree_of g cb1)
           (tree_of g cw2) (tree_of g cb2) (tree_of g fw) (tree_of g fb)"
  using assms
  by (simp add: convnet_model_def Dropout_def float_to_int_def
        op_defs Let_def discriminator_tree_def discriminator_stage_def dropout_tree_def)

lemma convnet_model_extends:
  "extends g (snd (convnet_model x cw1 cb1 cw2 cb2 fw fb batch_size s1 g))"
  by (simp add: convnet_model_def Dropout_def op_defs Let_def)
     (intro extends_Cons extends_refl)

lemma convnet_model_no_assign:
  "filter (\<lambda>n. kind n = Op_Assign)
     (built g (snd (convnet_model x cw1 cb1 cw2 cb2 fw fb batch_size s1 g))) = []"
  by (simp add: convnet_model_def Dropout_def op_defs Let_def built_def)

lemma discriminator_variables_props:
  "case discriminator_variables U s1 g of
     None \<Rightarrow> False
   | Some (d, g') \<Rightarrow>
       extends g g'
       \<and> is_variable g' (conv1_weights d) [5, 5, NUM_CHANNELS U, 64]
       \<and> is_variable g' (conv1_biases d) [64]
       \<and> is_variable g' (conv2_weights d) [5, 5, 64, 128]
       \<and> is_variable g' (conv2_biases d) [128]
       \<and> is_variable g' (fc1_weights d) [s1, 1]
       \<and> is_variable g' (fc1_biases d) [1]"
  apply (simp add: discriminator_variables_def GlorotUniform_result op_defs Let_def
      is_variable_def)
  apply (intro extends_Cons extends_refl)
  done


lemma Discriminator_unfold:
  assumes "flattened_size (IMAGE_SIZE U) = Some s1"
  shows "\<exists>dv gv out g'.
           discriminator_variables U s1 g = Some (dv, gv)
         \<and> convnet_model x (member (conv1_weights dv)) (member (conv1_biases dv))
               (member (conv2_weights dv)) (member (conv2_biases dv))
               (member (fc1_weights dv)) (member (fc1_biases dv)) batch_size s1 gv = (out, g')
         \<and> Discriminator U x batch_size g = Some (dv\<lparr>output' := Some out\<rparr>, g')"
proof -
  obtain dv gv where dv: "discriminator_variables U s1 g = Some (dv, gv)"
    using discriminator_variables_props [where U = U and g = g and ?s1.0 = s1]
    by (auto split: option.splits)
  obtain out g' where cm:
    "convnet_model x (member (conv1_weights dv)) (member (conv1_biases dv))
       (member (conv2_weights dv)) (member (conv2_biases dv))
       (member (fc1_weights dv)) (member (fc1_biases dv)) batch_size s1 gv = (out, g')"
    by (cases "convnet_model x (member (conv1_weights dv)) (member (conv1_biases dv))
       (member (conv2_weights dv)) (member (conv2_biases dv))
       (member (fc1_weights dv)) (member (fc1_biases dv)) batch_size s1 gv") blast
  have "Discriminator U x batch_size g = Some (dv\<lparr>output' := Some out\<rparr>, g')"
    by (simp add: Discriminator_def assms dv cm)
  with dv cm show ?thesis by blast
qed

lemma Discriminator_forward:
  assumes x: "valid g x" and s1: "flattened_size (IMAGE_SIZE U) = Some s1"
  shows "case Discriminator U x batch_size g of
     None \<Rightarrow> False
   | Some (d, g') \<Rightarrow>
       extends g g'
       \<and> tree_of g' (member (discriminator.output' d)) =
           discriminator_tree 1 batch_size s1 (tree_of g x)
             (tree_of g' (member (conv1_weights d))) (tree_of g' (member (conv1_biases d)))
             (tree_of g' (member (conv2_weights d))) (tree_of g' (member (conv2_biases d)))
             (tree_of g' (member (fc1_weights d))) (tree_of g' (member (fc1_biases d)))
       \<and> is_variable g' (conv1_weights d) [5, 5, NUM_CHANNELS U, 64]
       \<and> is_variable g' (conv1_biases d) [64]
       \<and> is_variable g' (conv2_weights d) [5, 5, 64, 128]
       \<and> is_variable g' (conv2_biases d) [128]
       \<and> is_variable g' (fc1_weights d) [s1, 1]
       \<and> is_variable g' (fc1_biases d) [1]"
proof -
  obtain dv gv out g' where dv: "discriminator_variables U s1 g = Some (dv, gv)"
    and cm: "convnet_model x (member (conv1_weights dv)) (member (conv1_biases dv))
               (member (conv2_weights dv)) (member (conv2_biases dv))
               (member (fc1_weights dv)) (member (fc1_biases dv)) batch_size s1 gv = (out, g')"
    and D: "Discriminator U x batch_size g = Some (dv\<lparr>output' := Some out\<rparr>, g')"
    using Discriminator_unfold [OF s1] by blast
  from discriminator_variables_props [where U = U and g = g and ?s1.0 = s1] dv
  have ext: "extends g gv"
    and v1: "is_variable gv (conv1_weights dv) [5, 5, NUM_CHANNELS U, 64]"
    and v2: "is_variable gv (conv1_biases dv) [64]"
    and v3: "is_variable gv (conv2_weights dv) [5, 5, 64, 128]"
    and v4: "is_variable gv (conv2_biases dv) [128]"
    and v5: "is_variable gv (fc1_weights dv) [s1, 1]"
    and v6: "is_variable gv (fc1_biases dv) [1]"
    by simp_all
  note vs = v1 v2 v3 v4 v5 v6
  note valids = vs [THEN is_variable_valid]
  have ext': "extends gv g'"
    using convnet_model_extends [of gv x "member (conv1_weights dv)" "member (conv1_biases dv)"
        "member (conv2_weights dv)" "member (conv2_biases dv)" "member (fc1_weights dv)"
        "member (fc1_biases dv)" batch_size s1] cm by simp
  have keep: "is_variable g' m sh" if "is_variable gv m sh" for m sh
  proof -
    from that obtain v where m: "m = Some v"
      and n: "node_at gv v = Some (Node (Op_Variable sh DT_FLOAT) [])"
      by (auto simp add: is_variable_def split: option.splits)
    from extends_append [OF ext'] obtain h where h: "g' = h @ gv" by blast
    have "node_at (h @ gv) v = node_at gv v"
      using node_at_length [OF n] by (induction h) simp_all
    with m n h show ?thesis by (simp add: is_variable_def)
  qed
  have xv: "valid gv x" using valid_extends [OF ext x] .
  have t: "tree_of g' (Ref out) =
         discriminator_tree 1 batch_size s1 (tree_of gv x)
           (tree_of gv (member (conv1_weights dv))) (tree_of gv (member (conv1_biases dv)))
           (tree_of gv (member (conv2_weights dv))) (tree_of gv (member (conv2_biases dv)))
           (tree_of gv (member (fc1_weights dv))) (tree_of gv (member (fc1_biases dv)))"
    using convnet_model_tree [OF xv valids, of batch_size s1] cm by simp
  have same: "tree_of g' i = tree_of gv i" if "valid gv i" for i
    using tree_of_extends [OF ext' that] .
  show ?thesis
    unfolding D
    using t extends_trans [OF ext ext'] vs [THEN keep] valids [THEN same]
      tree_of_extends [OF ext x]
    by simp
qed

lemma built_self [simp]: "built g g = []"
  by (simp add: built_def)

lemma built_Cons: "length g \<le> length g' \<Longrightarrow> built g (n # g') = n # built g g'"
  by (simp add: built_def Suc_diff_le)

lemma built_append: "built g (h @ g) = h"
  by (simp add: built_def)

lemma built_trans:
  assumes "extends g gv" and "extends gv g'"
  shows "built g g' = built gv g' @ built g gv"
proof -
  from extends_append [OF assms(1)] obtain h where h: "gv = h @ g" by blast
  from extends_append [OF assms(2)] obtain h' where h': "g' = h' @ gv" by blast
  have "built g ((h' @ h) @ g) = h' @ h" by (rule built_append)
  then show ?thesis using h h' by (simp add: built_append)
qed

lemma Generator_deconvs:
  "case Generator U batch_size g of
     None \<Rightarrow> False
   | Some (gen, g') \<Rightarrow> length (filter is_deconv (built g g')) = 3"
  by (simp add: Generator_def GlorotUniform_result BatchNormalization_def Conv2DTranspose_def
        op_defs Let_def built_def)

text \<open>
  C6. For every batch size the Generator returns: random-normal noise, the dense layer
  (MatMul with w1), batch normalization, leaky ReLU, a reshape to [batch_size, 7, 7, 256],
  then three transposed convolutions with strides 1, 2 and 2, the first two each followed
  by a fused batch normalization and a leaky ReLU, the third being the output; and the
  constructor builds exactly three transposed-convolution nodes.
\<close>

theorem Generator_pipeline:
  "case Generator U batch_size g of
     None \<Rightarrow> False
   | Some (gen, g') \<Rightarrow>
       (let float1 = (\<lambda>v. Nd (Op_Const (TFloat [1] [v])) []);
            sizes = (\<lambda>vs. Nd (Op_Const (TInt32 [4] vs)) []);
            empty = Nd (Op_Const (TFloat [0] [])) [];
            fill = (\<lambda>v n. Nd Op_BroadcastTo [Lit (TFloat [] [v]), Lit (TInt32 [1] [n])]);
            noise = Nd (Op_RandomNormal DT_FLOAT) [Lit (TInt32 [2] [batch_size, NOISE_DIM U])];
            dense = Nd Op_MatMul [noise, VarRef (w1 gen) [NOISE_DIM U, UNITS U] DT_FLOAT];
            batchnorm = batch_normalization_code_tree dense (float1 0) (float1 1) (float1 0)
                          (float1 (1 / 1000));
            leakyrelu = Nd (Op_LeakyRelu (3 / 10)) [batchnorm];
            reshape1 = Nd Op_Reshape [leakyrelu, Lit (TInt32 [4] [batch_size, 7, 7, 256])];
            deconv1 = Nd (Op_Conv2DBackpropInput [1, 1, 1, 1] ''SAME'')
                        [sizes [batch_size, 7, 7, 128],
                         VarRef (filter' gen) [5, 5, 128, 256] DT_FLOAT, reshape1];
            batchnorm1 = Nd (Op_FusedBatchNorm (1 / 1000))
                           [deconv1, fill 1 128, fill 0 128, empty, empty];
            leakyrelu1 = Nd (Op_LeakyRelu (3 / 10)) [batchnorm1];
            deconv2 = Nd (Op_Conv2DBackpropInput [1, 2, 2, 1] ''SAME'')
                        [sizes [batch_size, 14, 14, 64],
                         VarRef (filter2 gen) [5, 5, 64, 128] DT_FLOAT, leakyrelu1];
            batchnorm2 = Nd (Op_FusedBatchNorm (1 / 1000))
                           [deconv2, fill 1 64, fill 0 64, empty, empty];
            leakyrelu2 = Nd (Op_LeakyRelu (3 / 10)) [batchnorm2];
            deconv3 = Nd (Op_Conv2DBackpropInput [1, 2, 2, 1] ''SAME'')
                        [sizes [batch_size, 28, 28, NUM_CHANNELS U],
                         VarRef (filter3 gen) [5, 5, NUM_CHANNELS U, 64] DT_FLOAT, leakyrelu2]
        in tree_of g' (Ref (generator.output' gen)) = deconv3
           \<and> length (filter is_deconv (built g g')) = 3)"
  using Generator_tree [where U = U and batch_size = batch_size and g = g]
    Generator_deconvs [where U = U and batch_size = batch_size and g = g]
  by (simp add: generator_tree_def Let_def split: option.splits prod.splits)

lemma convnet_model_convs:
  "length (filter is_conv
     (built g (snd (convnet_model x cw1 cb1 cw2 cb2 fw fb batch_size s1 g)))) = 2"
  by (simp add: convnet_model_def Dropout_def op_defs Let_def built_def)

lemma discriminator_variables_convs:
  "case discriminator_variables U s1 g of
     None \<Rightarrow> False
   | Some (d, g') \<Rightarrow> filter is_conv (built g g') = []"
  by (simp add: discriminator_variables_def GlorotUniform_result op_defs Let_def built_def)

lemma Discriminator_convs:
  assumes s1: "flattened_size (IMAGE_SIZE U) = Some s1"
  shows "case Discriminator U x batch_size g of
     None \<Rightarrow> False
   | Some (d, g') \<Rightarrow> length (filter is_conv (built g g')) = 2"
proof -
  obtain dv gv out g' where dv: "discriminator_variables U s1 g = Some (dv, gv)"
    and cm: "convnet_model x (member (conv1_weights dv)) (member (conv1_biases dv))
               (member (conv2_weights dv)) (member (conv2_biases dv))
               (member (fc1_weights dv)) (member (fc1_biases dv)) batch_size s1 gv = (out, g')"
    and D: "Discriminator U x batch_size g = Some (dv\<lparr>output' := Some out\<rparr>, g')"
    using Discriminator_unfold [OF s1] by blast
  have ext: "extends g gv"
    using discriminator_variables_props [where U = U and g = g and ?s1.0 = s1] dv by simp
  have ext': "extends gv g'"
    using convnet_model_extends [of gv x "member (conv1_weights dv)" "member (conv1_biases dv)"
        "member (conv2_weights dv)" "member (conv2_biases dv)" "member (fc1_weights dv)"
        "member (fc1_biases dv)" batch_size s1] cm by simp
  have a: "filter is_conv (built g gv) = []"
    using discriminator_variables_convs [where U = U and g = g and ?s1.0 = s1] dv by simp
  have b: "length (filter is_conv (built gv g')) = 2"
    using convnet_model_convs [of gv x "member (conv1_weights dv)" "member (conv1_biases dv)"
        "member (conv2_weights dv)" "member (conv2_biases dv)" "member (fc1_weights dv)"
        "member (fc1_biases dv)" batch_size s1] cm by simp
  show ?thesis
    unfolding D using a b by (simp add: built_trans [OF ext ext'])
qed

text \<open>
  C7. For every valid input and every batch size, when (IMAGE_SIZE / 4)^2 * 128 fits an
  \<^verbatim>\<open>int\<close>, the Discriminator returns two stages of stride-2 SAME convolution, bias add,
  leaky ReLU with alpha 0.3 and a Dropout node, then a reshape to [batch_size, s1] with
  s1 = (IMAGE_SIZE / 4)^2 * 128 and a MatMul with fc1_weights plus a BiasAdd of
  fc1_biases; fc1_weights has shape [s1, 1] and fc1_biases shape [1], so there is one logit
  per batch element; the constructor builds exactly two convolution nodes.
\<close>

theorem Discriminator_pipeline:
  assumes "valid g x" and "(IMAGE_SIZE U sdiv 4) ^ 2 * 128 \<le> 2147483647"
  shows "case Discriminator U x batch_size g of
     None \<Rightarrow> False
   | Some (d, g') \<Rightarrow>
       (let s1 = (IMAGE_SIZE U sdiv 4) ^ 2 * 128;
            leaf = (\<lambda>m. tree_of g' (member m));
            stage = (\<lambda>inp w b.
              dropout_tree 1
                (Nd (Op_LeakyRelu (3 / 10))
                   [Nd Op_BiasAdd [Nd (Op_Conv2D [1, 2, 2, 1] ''SAME'') [inp, w], b]]));
            dropout_1 = stage (tree_of g x) (leaf (conv1_weights d)) (leaf (conv1_biases d));
            dropout_2 = stage dropout_1 (leaf (conv2_weights d)) (leaf (conv2_biases d));
            reshape1 = Nd Op_Reshape [dropout_2, Lit (TInt32 [2] [batch_size, s1])]
        in tree_of g' (member (discriminator.output' d)) =
             Nd Op_BiasAdd [Nd Op_MatMul [reshape1, leaf (fc1_weights d)], leaf (fc1_biases d)]
           \<and> length (filter is_conv (built g g')) = 2
           \<and> is_variable g' (conv1_weights d) [5, 5, NUM_CHANNELS U, 64]
           \<and> is_variable g' (conv1_biases d) [64]
           \<and> is_variable g' (conv2_weights d) [5, 5, 64, 128]
           \<and> is_variable g' (conv2_biases d) [128]
           \<and> is_variable g' (fc1_weights d) [s1, 1]
           \<and> is_variable g' (fc1_biases d) [1])"
  using Discriminator_forward [OF assms(1) flattened_size_eq [OF assms(2)], of batch_size]
    Discriminator_convs [OF flattened_size_eq [OF assms(2)],
      where x = x and batch_size = batch_size and g = g]
  by (simp add: discriminator_tree_def discriminator_stage_def Let_def
        split: option.splits prod.splits)

theorem Discriminator_pipeline_witness:
  "case Discriminator \<lparr>NOISE_DIM = 100, UNITS = 12544, NUM_CHANNELS = 1, IMAGE_SIZE = 28\<rparr>
          (Imm (TFloat [1] [0])) 64 [] of
     None \<Rightarrow> False
   | Some (d, g') \<Rightarrow>
       length (filter is_conv (built [] g')) = 2
       \<and> is_variable g' (fc1_weights d) [6272, 1]"
proof -
  have h1: "valid [] (Imm (TFloat [1] [0]))" by simp
  have h2: "(IMAGE_SIZE \<lparr>NOISE_DIM = 100, UNITS = 12544, NUM_CHANNELS = 1, IMAGE_SIZE = 28\<rparr>
              sdiv 4) ^ 2 * 128 \<le> (2147483647 :: int)"
    by (simp add: signed_divide_int_def)
  have e: "(IMAGE_SIZE \<lparr>NOISE_DIM = 100, UNITS = 12544, NUM_CHANNELS = 1, IMAGE_SIZE = 28\<rparr>
              sdiv 4) ^ 2 * 128 = (6272 :: int)"
    by (simp add: signed_divide_int_def)
  show ?thesis
    using Discriminator_pipeline [OF h1 h2, of 64]
    unfolding e Let_def by (auto split: option.splits prod.splits)
qed

lemma Discriminator_shared_forward:
  assumes s1: "flattened_size (IMAGE_SIZE U) = Some s1"
    and v: "valid g x" "valid g (member (conv1_weights disc))"
      "valid g (member (conv1_biases disc))" "valid g (member (conv2_weights disc))"
      "valid g (member (conv2_biases disc))" "valid g (member (fc1_weights disc))"
      "valid g (member (fc1_biases disc))"
  shows "case Discriminator_shared U disc x batch_size g of
     None \<Rightarrow> False
   | Some (d2, g') \<Rightarrow>
       extends g g'
       \<and> no_assign (built g g')
       \<and> tree_of g' (member (discriminator.output' d2)) =
           discriminator_tree 1 batch_size s1 (tree_of g x)
             (tree_of g (member (conv1_weights disc))) (tree_of g (member (conv1_biases disc)))
             (tree_of g (member (conv2_weights disc))) (tree_of g (member (conv2_biases disc)))
             (tree_of g (member (fc1_weights disc))) (tree_of g (member (fc1_biases disc)))"
proof -
  obtain out g' where cm:
    "convnet_model x (member (conv1_weights disc)) (member (conv1_biases disc))
       (member (conv2_weights disc)) (member (conv2_biases disc))
       (member (fc1_weights disc)) (member (fc1_biases disc)) batch_size s1 g = (out, g')"
    by (cases "convnet_model x (member (conv1_weights disc)) (member (conv1_biases disc))
       (member (conv2_weights disc)) (member (conv2_biases disc))
       (member (fc1_weights disc)) (member (fc1_biases disc)) batch_size s1 g") blast
  have ext: "extends g g'"
    using convnet_model_extends [of g x "member (conv1_weights disc)"
        "member (conv1_biases disc)" "member (conv2_weights disc)" "member (conv2_biases disc)"
        "member (fc1_weights disc)" "member (fc1_biases disc)" batch_size s1] cm by simp
  have na: "no_assign (built g g')"
    using convnet_model_no_assign [of g x "member (conv1_weights disc)"
        "member (conv1_biases disc)" "member (conv2_weights disc)" "member (conv2_biases disc)"
        "member (fc1_weights disc)" "member (fc1_biases disc)" batch_size s1] cm
    by (simp add: no_assign_def)
  have t: "tree_of g' (Ref out) =
           discriminator_tree 1 batch_size s1 (tree_of g x)
             (tree_of g (member (conv1_weights disc))) (tree_of g (member (conv1_biases disc)))
             (tree_of g (member (conv2_weights disc))) (tree_of g (member (conv2_biases disc)))
             (tree_of g (member (fc1_weights disc))) (tree_of g (member (fc1_biases disc)))"
    using convnet_model_tree [OF v, of batch_size s1] cm by simp
  show ?thesis
    using ext na t by (simp add: Discriminator_shared_def s1 cm)
qed

text \<open>
  C9. Let the primary constructor build a Discriminator on an input \<open>x\<close>, and let the
  weight-sharing constructor then build one from it on an input \<open>x2\<close>. Both outputs
  are the same forward computation (same layers, strides, padding and flattened size
  s1 = (IMAGE_SIZE / 4)^2 * 128) over the same six weight variables, applied to the
  respective input and batch size; for the same batch size and the same input they are
  equal.
\<close>

theorem Discriminator_shared_same_forward:
  assumes "valid g x" and "(IMAGE_SIZE U sdiv 4) ^ 2 * 128 \<le> 2147483647"
  shows "case Discriminator U x batch_size g of
     None \<Rightarrow> False
   | Some (d, g1) \<Rightarrow>
       (valid g1 x2 \<longrightarrow>
         (case Discriminator_shared U d x2 batch_size2 g1 of
            None \<Rightarrow> False
          | Some (d2, g2) \<Rightarrow>
              (let s1 = (IMAGE_SIZE U sdiv 4) ^ 2 * 128;
                   leaf = (\<lambda>m. tree_of g1 (member m));
                   forward = (\<lambda>bs inp.
                     discriminator_tree 1 bs s1 inp
                       (leaf (conv1_weights d)) (leaf (conv1_biases d))
                       (leaf (conv2_weights d)) (leaf (conv2_biases d))
                       (leaf (fc1_weights d)) (leaf (fc1_biases d)))
               in tree_of g1 (member (discriminator.output' d)) =
                    forward batch_size (tree_of g x)
                  \<and> tree_of g2 (member (discriminator.output' d2)) =
                      forward batch_size2 (tree_of g1 x2)
                  \<and> (batch_size2 = batch_size \<and> tree_of g1 x2 = tree_of g x \<longrightarrow>
                       tree_of g2 (member (discriminator.output' d2)) =
                         tree_of g1 (member (discriminator.output' d))))))"
proof -
  note s1 = flattened_size_eq [OF assms(2)]
  show ?thesis
  proof (cases "Discriminator U x batch_size g")
    case None
    with Discriminator_forward [OF assms(1) s1, of batch_size] show ?thesis by simp
  next
    case (Some r)
    obtain d g1 where r: "r = (d, g1)" by (cases r)
    from Discriminator_forward [OF assms(1) s1, of batch_size] Some r
    have t1: "tree_of g1 (member (discriminator.output' d)) =
           discriminator_tree 1 batch_size ((IMAGE_SIZE U sdiv 4) ^ 2 * 128) (tree_of g x)
             (tree_of g1 (member (conv1_weights d))) (tree_of g1 (member (conv1_biases d)))
             (tree_of g1 (member (conv2_weights d))) (tree_of g1 (member (conv2_biases d)))
             (tree_of g1 (member (fc1_weights d))) (tree_of g1 (member (fc1_biases d)))"
      and v1: "is_variable g1 (conv1_weights d) [5, 5, NUM_CHANNELS U, 64]"
      and v2: "is_variable g1 (conv1_biases d) [64]"
      and v3: "is_variable g1 (conv2_weights d) [5, 5, 64, 128]"
      and v4: "is_variable g1 (conv2_biases d) [128]"
      and v5: "is_variable g1 (fc1_weights d) [(IMAGE_SIZE U sdiv 4) ^ 2 * 128, 1]"
      and v6: "is_variable g1 (fc1_biases d) [1]"
      by simp_all
    note valids = v1 [THEN is_variable_valid] v2 [THEN is_variable_valid]
      v3 [THEN is_variable_valid] v4 [THEN is_variable_valid]
      v5 [THEN is_variable_valid] v6 [THEN is_variable_valid]
    have "case Discriminator_shared U d x2 batch_size2 g1 of
            None \<Rightarrow> False
          | Some (d2, g2) \<Rightarrow>
              tree_of g2 (member (discriminator.output' d2)) =
                discriminator_tree 1 batch_size2 ((IMAGE_SIZE U sdiv 4) ^ 2 * 128)
                  (tree_of g1 x2)
                  (tree_of g1 (member (conv1_weights d))) (tree_of g1 (member (conv1_biases d)))
                  (tree_of g1 (member (conv2_weights d))) (tree_of g1 (member (conv2_biases d)))
                  (tree_of g1 (member (fc1_weights d))) (tree_of g1 (member (fc1_biases d)))"
      if x2: "valid g1 x2"
      using Discriminator_shared_forward [OF s1 x2 valids, of batch_size2]
      by (auto split: option.splits)
    with t1 show ?thesis
      unfolding Some r by (auto simp add: Let_def split: option.splits)
  qed
qed

theorem Discriminator_shared_same_forward_witness:
  "case Discriminator \<lparr>NOISE_DIM = 100, UNITS = 12544, NUM_CHANNELS = 1, IMAGE_SIZE = 28\<rparr>
          (Imm (TFloat [1] [0])) 64 [] of
     None \<Rightarrow> False
   | Some (d, g1) \<Rightarrow>
       (case Discriminator_shared
               \<lparr>NOISE_DIM = 100, UNITS = 12544, NUM_CHANNELS = 1, IMAGE_SIZE = 28\<rparr>
               d (Imm (TFloat [1] [0])) 64 g1 of
          None \<Rightarrow> False
        | Some (d2, g2) \<Rightarrow>
            tree_of g2 (member (discriminator.output' d2)) =
              tree_of g1 (member (discriminator.output' d)))"
proof -
  have h1: "valid [] (Imm (TFloat [1] [0]))" by simp
  have h2: "(IMAGE_SIZE \<lparr>NOISE_DIM = 100, UNITS = 12544, NUM_CHANNELS = 1, IMAGE_SIZE = 28\<rparr>
              sdiv 4) ^ 2 * 128 \<le> (2147483647 :: int)"
    by (simp add: signed_divide_int_def)
  show ?thesis
    using Discriminator_shared_same_forward [OF h1 h2,
        where batch_size = 64 and ?x2.0 = "Imm (TFloat [1] [0])" and ?batch_size2.0 = 64]
    unfolding Let_def by (auto split: option.splits prod.splits)
qed

lemma assign_target_kind: "assign_target n = Some r \<Longrightarrow> kind n = Op_Assign"
  by (cases n rule: assign_target.cases) simp_all

lemma writers_no_assign: "no_assign ns \<Longrightarrow> writers ns v = []"
  by (auto simp add: no_assign_def writers_def filter_empty_conv dest: assign_target_kind)

lemma writers_append: "writers (xs @ ys) v = writers xs v @ writers ys v"
  by (simp add: writers_def)

lemma writes_own_append: "writes_own g (xs @ ys) = (writes_own g xs \<and> writes_own g ys)"
  by (simp add: writes_own_def)

lemma writes_own_no_assign: "no_assign ns \<Longrightarrow> writes_own g ns"
  by (auto simp add: no_assign_def writes_own_def filter_empty_conv list_all_iff
      split: node.splits)

lemma node_at_append: "node_at g v = Some n \<Longrightarrow> node_at (h @ g) v = Some n"
proof (induction h)
  case Nil
  then show ?case by simp
next
  case (Cons a h)
  from node_at_length [OF Cons.prems] have "v \<noteq> length (h @ g)" by simp
  with Cons show ?case by simp
qed

lemma node_at_extends: "extends g g' \<Longrightarrow> node_at g v = Some n \<Longrightarrow> node_at g' v = Some n"
  using extends_append node_at_append by blast

lemma zero_initialised_later:
  assumes z: "zero_initialised g gv acc assign weight"
    and ext: "extends g gv" and ext': "extends gv g'" and na: "no_assign (built gv g')"
  shows "zero_initialised g g' acc assign weight"
proof -
  from z obtain a s w where o: "acc = Some a" "assign = Some s" "weight = Some w"
    by (auto simp add: zero_initialised_def split: option.splits)
  from z have all: "length g \<le> a
      \<and> Option.bind (node_at gv a) var_shape \<noteq> None
      \<and> Option.bind (node_at gv a) var_shape = Option.bind (node_at gv w) var_shape
      \<and> map Some (writers (built g gv) a) = [node_at gv s]"
    unfolding zero_initialised_def o prod.case option.case by blast
  then have la: "length g \<le> a"
    and sa: "Option.bind (node_at gv a) var_shape \<noteq> None"
    and sw: "Option.bind (node_at gv a) var_shape = Option.bind (node_at gv w) var_shape"
    and wr: "map Some (writers (built g gv) a) = [node_at gv s]"
    by blast+
  from sa obtain na' where na': "node_at gv a = Some na'"
    by (cases "node_at gv a") simp_all
  from sa sw obtain nw where nw: "node_at gv w = Some nw"
    by (cases "node_at gv w") simp_all
  from z have "case Option.bind (node_at gv s) assign_parts of
                 Some (r, v) \<Rightarrow>
                   r = Ref a
                   \<and> Option.bind (handle v) (node_at gv) = Some (Node Op_ZerosLike [Ref w])
               | None \<Rightarrow> False"
    unfolding zero_initialised_def o prod.case option.case by blast
  then obtain r v where b: "Option.bind (node_at gv s) assign_parts = Some (r, v)"
    and r: "r = Ref a"
    and bz: "Option.bind (handle v) (node_at gv) = Some (Node Op_ZerosLike [Ref w])"
    by (auto split: option.splits)
  from b obtain ns where ns: "node_at gv s = Some ns" and ap: "assign_parts ns = Some (r, v)"
    by (cases "node_at gv s") simp_all
  from bz obtain z' where hv: "handle v = Some z'"
    and nz: "node_at gv z' = Some (Node Op_ZerosLike [Ref w])"
    by (cases "handle v") simp_all
  note keep = node_at_extends [OF ext']
  have w': "writers (built g g') a = writers (built g gv) a"
    by (simp add: built_trans [OF ext ext'] writers_append writers_no_assign [OF na])
  show ?thesis
    using la sa sw wr ap r hv nz
    by (simp add: zero_initialised_def o w' keep [OF na'] keep [OF nw] keep [OF ns] keep [OF nz]
        na' nw ns)
qed

lemma Generator_w1_wm:
  "case Generator U batch_size g of
     None \<Rightarrow> False
   | Some (gen, g') \<Rightarrow>
       zero_initialised g g' (Some (w1_wm gen)) (Some (assign_w1_wm gen)) (Some (w1 gen))"
  by (simp add: Generator_def GlorotUniform_result BatchNormalization_def Conv2DTranspose_def
        op_defs Let_def built_def zero_initialised_def writers_def)

lemma Generator_w1_wv:
  "case Generator U batch_size g of
     None \<Rightarrow> False
   | Some (gen, g') \<Rightarrow>
       zero_initialised g g' (Some (w1_wv gen)) (Some (assign_w1_wv gen)) (Some (w1 gen))"
  by (simp add: Generator_def GlorotUniform_result BatchNormalization_def Conv2DTranspose_def
        op_defs Let_def built_def zero_initialised_def writers_def)

lemma Generator_filter_wm:
  "case Generator U batch_size g of
     None \<Rightarrow> False
   | Some (gen, g') \<Rightarrow>
       zero_initialised g g' (Some (filter_wm gen)) (Some (assign_filter_wm gen)) (Some (filter' gen))"
  by (simp add: Generator_def GlorotUniform_result BatchNormalization_def Conv2DTranspose_def
        op_defs Let_def built_def zero_initialised_def writers_def)

lemma Generator_filter_wv:
  "case Generator U batch_size g of
     None \<Rightarrow> False
   | Some (gen, g') \<Rightarrow>
       zero_initialised g g' (Some (filter_wv gen)) (Some (assign_filter_wv gen)) (Some (filter' gen))"
  by (simp add: Generator_def GlorotUniform_result BatchNormalization_def Conv2DTranspose_def
        op_defs Let_def built_def zero_initialised_def writers_def)

lemma Generator_filter2_wm:
  "case Generator U batch_size g of
     None \<Rightarrow> False
   | Some (gen, g') \<Rightarrow>
       zero_initialised g g' (Some (filter2_wm gen)) (Some (assign_filter2_wm gen)) (Some (filter2 gen))"
  by (simp add: Generator_def GlorotUniform_result BatchNormalization_def Conv2DTranspose_def
        op_defs Let_def built_def zero_initialised_def writers_def)

lemma Generator_filter2_wv:
  "case Generator U batch_size g of
     None \<Rightarrow> False
   | Some (gen, g') \<Rightarrow>
       zero_initialised g g' (Some (filter2_wv gen)) (Some (assign_filter2_wv gen)) (Some (filter2 gen))"
  by (simp add: Generator_def GlorotUniform_result BatchNormalization_def Conv2DTranspose_def
        op_defs Let_def built_def zero_initialised_def writers_def)

lemma Generator_filter3_wm:
  "case Generator U batch_size g of
     None \<Rightarrow> False
   | Some (gen, g') \<Rightarrow>
       zero_initialised g g' (Some (filter3_wm gen)) (Some (assign_filter3_wm gen)) (Some (filter3 gen))"
  by (simp add: Generator_def GlorotUniform_result BatchNormalization_def Conv2DTranspose_def
        op_defs Let_def built_def zero_initialised_def writers_def)

lemma Generator_filter3_wv:
  "case Generator U batch_size g of
     None \<Rightarrow> False
   | Some (gen, g') \<Rightarrow>
       zero_initialised g g' (Some (filter3_wv gen)) (Some (assign_filter3_wv gen)) (Some (filter3 gen))"
  by (simp add: Generator_def GlorotUniform_result BatchNormalization_def Conv2DTranspose_def
        op_defs Let_def built_def zero_initialised_def writers_def)

lemma Generator_writes_own:
  "case Generator U batch_size g of
     None \<Rightarrow> False
   | Some (gen, g') \<Rightarrow> writes_own g (built g g')"
  by (simp add: Generator_def GlorotUniform_result BatchNormalization_def Conv2DTranspose_def
        op_defs Let_def built_def writes_own_def)

lemma discriminator_variables_conv1_wm:
  "case discriminator_variables U s1 g of
     None \<Rightarrow> False
   | Some (d, g') \<Rightarrow> zero_initialised g g' (conv1_wm d) (assign_conv1_wm d) (conv1_weights d)"
  by (simp add: discriminator_variables_def GlorotUniform_result op_defs Let_def built_def
        zero_initialised_def writers_def)

lemma discriminator_variables_conv1_wv:
  "case discriminator_variables U s1 g of
     None \<Rightarrow> False
   | Some (d, g') \<Rightarrow> zero_initialised g g' (conv1_wv d) (assign_conv1_wv d) (conv1_weights d)"
  by (simp add: discriminator_variables_def GlorotUniform_result op_defs Let_def built_def
        zero_initialised_def writers_def)

lemma discriminator_variables_conv1_bm:
  "case discriminator_variables U s1 g of
     None \<Rightarrow> False
   | Some (d, g') \<Rightarrow> zero_initialised g g' (conv1_bm d) (assign_conv1_bm d) (conv1_biases d)"
  by (simp add: discriminator_variables_def GlorotUniform_result op_defs Let_def built_def
        zero_initialised_def writers_def)

lemma discriminator_variables_conv1_bv:
  "case discriminator_variables U s1 g of
     None \<Rightarrow> False
   | Some (d, g') \<Rightarrow> zero_initialised g g' (conv1_bv d) (assign_conv1_bv d) (conv1_biases d)"
  by (simp add: discriminator_variables_def GlorotUniform_result op_defs Let_def built_def
        zero_initialised_def writers_def)

lemma discriminator_variables_conv2_wm:
  "case discriminator_variables U s1 g of
     None \<Rightarrow> False
   | Some (d, g') \<Rightarrow> zero_initialised g g' (conv2_wm d) (assign_conv2_wm d) (conv2_weights d)"
  by (simp add: discriminator_variables_def GlorotUniform_result op_defs Let_def built_def
        zero_initialised_def writers_def)

lemma discriminator_variables_conv2_wv:
  "case discriminator_variables U s1 g of
     None \<Rightarrow> False
   | Some (d, g') \<Rightarrow> zero_initialised g g' (conv2_wv d) (assign_conv2_wv d) (conv2_weights d)"
  by (simp add: discriminator_variables_def GlorotUniform_result op_defs Let_def built_def
        zero_initialised_def writers_def)

lemma discriminator_variables_conv2_bm:
  "case discriminator_variables U s1 g of
     None \<Rightarrow> False
   | Some (d, g') \<Rightarrow> zero_initialised g g' (conv2_bm d) (assign_conv2_bm d) (conv2_biases d)"
  by (simp add: discriminator_variables_def GlorotUniform_result op_defs Let_def built_def
        zero_initialised_def writers_def)

lemma discriminator_variables_conv2_bv:
  "case discriminator_variables U s1 g of
     None \<Rightarrow> False
   | Some (d, g') \<Rightarrow> zero_initialised g g' (conv2_bv d) (assign_conv2_bv d) (conv2_biases d)"
  by (simp add: discriminator_variables_def GlorotUniform_result op_defs Let_def built_def
        zero_initialised_def writers_def)

lemma discriminator_variables_fc1_wm:
  "case discriminator_variables U s1 g of
     None \<Rightarrow> False
   | Some (d, g') \<Rightarrow> zero_initialised g g' (fc1_wm d) (assign_fc1_wm d) (fc1_weights d)"
  by (simp add: discriminator_variables_def GlorotUniform_result op_defs Let_def built_def
        zero_initialised_def writers_def)

lemma discriminator_variables_fc1_wv:
  "case discriminator_variables U s1 g of
     None \<Rightarrow> False
   | Some (d, g') \<Rightarrow> zero_initialised g g' (fc1_wv d) (assign_fc1_wv d) (fc1_weights d)"
  by (simp add: discriminator_variables_def GlorotUniform_result op_defs Let_def built_def
        zero_initialised_def writers_def)

lemma discriminator_variables_fc1_bm:
  "case discriminator_variables U s1 g of
     None \<Rightarrow> False
   | Some (d, g') \<Rightarrow> zero_initialised g g' (fc1_bm d) (assign_fc1_bm d) (fc1_biases d)"
  by (simp add: discriminator_variables_def GlorotUniform_result op_defs Let_def built_def
        zero_initialised_def writers_def)

lemma discriminator_variables_fc1_bv:
  "case discriminator_variables U s1 g of
     None \<Rightarrow> False
   | Some (d, g') \<Rightarrow> zero_initialised g g' (fc1_bv d) (assign_fc1_bv d) (fc1_biases d)"
  by (simp add: discriminator_variables_def GlorotUniform_result op_defs Let_def built_def
        zero_initialised_def writers_def)

lemma discriminator_variables_writes_own:
  "case discriminator_variables U s1 g of
     None \<Rightarrow> False
   | Some (d, g') \<Rightarrow> writes_own g (built g g')"
  by (simp add: discriminator_variables_def GlorotUniform_result op_defs Let_def built_def
        writes_own_def)

lemma Generator_accumulators:
  "case Generator U batch_size g of
     None \<Rightarrow> False
   | Some (gen, g') \<Rightarrow>
       zero_initialised g g' (Some (w1_wm gen)) (Some (assign_w1_wm gen)) (Some (w1 gen))
     \<and> zero_initialised g g' (Some (w1_wv gen)) (Some (assign_w1_wv gen)) (Some (w1 gen))
     \<and> zero_initialised g g' (Some (filter_wm gen)) (Some (assign_filter_wm gen)) (Some (filter' gen))
     \<and> zero_initialised g g' (Some (filter_wv gen)) (Some (assign_filter_wv gen)) (Some (filter' gen))
     \<and> zero_initialised g g' (Some (filter2_wm gen)) (Some (assign_filter2_wm gen)) (Some (filter2 gen))
     \<and> zero_initialised g g' (Some (filter2_wv gen)) (Some (assign_filter2_wv gen)) (Some (filter2 gen))
     \<and> zero_initialised g g' (Some (filter3_wm gen)) (Some (assign_filter3_wm gen)) (Some (filter3 gen))
     \<and> zero_initialised g g' (Some (filter3_wv gen)) (Some (assign_filter3_wv gen)) (Some (filter3 gen))
     \<and> writes_own g (built g g')"
  using Generator_w1_wm [where U = U and batch_size = batch_size and g = g]
    Generator_w1_wv [where U = U and batch_size = batch_size and g = g]
    Generator_filter_wm [where U = U and batch_size = batch_size and g = g]
    Generator_filter_wv [where U = U and batch_size = batch_size and g = g]
    Generator_filter2_wm [where U = U and batch_size = batch_size and g = g]
    Generator_filter2_wv [where U = U and batch_size = batch_size and g = g]
    Generator_filter3_wm [where U = U and batch_size = batch_size and g = g]
    Generator_filter3_wv [where U = U and batch_size = batch_size and g = g]
    Generator_writes_own [where U = U and batch_size = batch_size and g = g]
  by (simp split: option.splits prod.splits)

lemma Discriminator_shared_no_assign:
  assumes s1: "flattened_size (IMAGE_SIZE U) = Some s1"
  shows "case Discriminator_shared U disc x batch_size g of
     None \<Rightarrow> False
   | Some (d2, g') \<Rightarrow> no_assign (built g g')"
proof -
  obtain out g' where cm:
    "convnet_model x (member (conv1_weights disc)) (member (conv1_biases disc))
       (member (conv2_weights disc)) (member (conv2_biases disc))
       (member (fc1_weights disc)) (member (fc1_biases disc)) batch_size s1 g = (out, g')"
    by (cases "convnet_model x (member (conv1_weights disc)) (member (conv1_biases disc))
       (member (conv2_weights disc)) (member (conv2_biases disc))
       (member (fc1_weights disc)) (member (fc1_biases disc)) batch_size s1 g") blast
  have na: "no_assign (built g g')"
    using convnet_model_no_assign [of g x "member (conv1_weights disc)"
        "member (conv1_biases disc)" "member (conv2_weights disc)" "member (conv2_biases disc)"
        "member (fc1_weights disc)" "member (fc1_biases disc)" batch_size s1] cm
    by (simp add: no_assign_def)
  show ?thesis
    using na by (simp add: Discriminator_shared_def s1 cm)
qed

lemma Discriminator_accumulators:
  assumes s1: "flattened_size (IMAGE_SIZE U) = Some s1"
  shows "case Discriminator U x batch_size g of
     None \<Rightarrow> False
   | Some (d, g') \<Rightarrow>
       zero_initialised g g' (conv1_wm d) (assign_conv1_wm d) (conv1_weights d)
     \<and> zero_initialised g g' (conv1_wv d) (assign_conv1_wv d) (conv1_weights d)
     \<and> zero_initialised g g' (conv1_bm d) (assign_conv1_bm d) (conv1_biases d)
     \<and> zero_initialised g g' (conv1_bv d) (assign_conv1_bv d) (conv1_biases d)
     \<and> zero_initialised g g' (conv2_wm d) (assign_conv2_wm d) (conv2_weights d)
     \<and> zero_initialised g g' (conv2_wv d) (assign_conv2_wv d) (conv2_weights d)
     \<and> zero_initialised g g' (conv2_bm d) (assign_conv2_bm d) (conv2_biases d)
     \<and> zero_initialised g g' (conv2_bv d) (assign_conv2_bv d) (conv2_biases d)
     \<and> zero_initialised g g' (fc1_wm d) (assign_fc1_wm d) (fc1_weights d)
     \<and> zero_initialised g g' (fc1_wv d) (assign_fc1_wv d) (fc1_weights d)
     \<and> zero_initialised g g' (fc1_bm d) (assign_fc1_bm d) (fc1_biases d)
     \<and> zero_initialised g g' (fc1_bv d) (assign_fc1_bv d) (fc1_biases d)
     \<and> writes_own g (built g g')"
proof -
  obtain dv gv out g' where dv: "discriminator_variables U s1 g = Some (dv, gv)"
    and cm: "convnet_model x (member (conv1_weights dv)) (member (conv1_biases dv))
               (member (conv2_weights dv)) (member (conv2_biases dv))
               (member (fc1_weights dv)) (member (fc1_biases dv)) batch_size s1 gv = (out, g')"
    and D: "Discriminator U x batch_size g = Some (dv\<lparr>output' := Some out\<rparr>, g')"
    using Discriminator_unfold [OF s1] by blast
  have ext: "extends g gv"
    using discriminator_variables_props [where U = U and g = g and ?s1.0 = s1] dv by simp
  have ext': "extends gv g'"
    using convnet_model_extends [of gv x "member (conv1_weights dv)" "member (conv1_biases dv)"
        "member (conv2_weights dv)" "member (conv2_biases dv)" "member (fc1_weights dv)"
        "member (fc1_biases dv)" batch_size s1] cm by simp
  have na: "no_assign (built gv g')"
    using convnet_model_no_assign [of gv x "member (conv1_weights dv)"
        "member (conv1_biases dv)" "member (conv2_weights dv)" "member (conv2_biases dv)"
        "member (fc1_weights dv)" "member (fc1_biases dv)" batch_size s1] cm
    by (simp add: no_assign_def)
  note later = zero_initialised_later [OF _ ext ext' na]
  have own: "writes_own g (built g g')"
    using discriminator_variables_writes_own [where U = U and g = g and ?s1.0 = s1] dv
    by (simp add: built_trans [OF ext ext'] writes_own_append writes_own_no_assign [OF na])
  have z0: "zero_initialised g g' (conv1_wm dv) (assign_conv1_wm dv) (conv1_weights dv)"
    using discriminator_variables_conv1_wm [where U = U and g = g and ?s1.0 = s1] dv
    by (auto intro: later)
  have z1: "zero_initialised g g' (conv1_wv dv) (assign_conv1_wv dv) (conv1_weights dv)"
    using discriminator_variables_conv1_wv [where U = U and g = g and ?s1.0 = s1] dv
    by (auto intro: later)
  have z2: "zero_initialised g g' (conv1_bm dv) (assign_conv1_bm dv) (conv1_biases dv)"
    using discriminator_variables_conv1_bm [where U = U and g = g and ?s1.0 = s1] dv
    by (auto intro: later)
  have z3: "zero_initialised g g' (conv1_bv dv) (assign_conv1_bv dv) (conv1_biases dv)"
    using discriminator_variables_conv1_bv [where U = U and g = g and ?s1.0 = s1] dv
    by (auto intro: later)
  have z4: "zero_initialised g g' (conv2_wm dv) (assign_conv2_wm dv) (conv2_weights dv)"
    using discriminator_variables_conv2_wm [where U = U and g = g and ?s1.0 = s1] dv
    by (auto intro: later)
  have z5: "zero_initialised g g' (conv2_wv dv) (assign_conv2_wv dv) (conv2_weights dv)"
    using discriminator_variables_conv2_wv [where U = U and g = g and ?s1.0 = s1] dv
    by (auto intro: later)
  have z6: "zero_initialised g g' (conv2_bm dv) (assign_conv2_bm dv) (conv2_biases dv)"
    using discriminator_variables_conv2_bm [where U = U and g = g and ?s1.0 = s1] dv
    by (auto intro: later)
  have z7: "zero_initialised g g' (conv2_bv dv) (assign_conv2_bv dv) (conv2_biases dv)"
    using discriminator_variables_conv2_bv [where U = U and g = g and ?s1.0 = s1] dv
    by (auto intro: later)
  have z8: "zero_initialised g g' (fc1_wm dv) (assign_fc1_wm dv) (fc1_weights dv)"
    using discriminator_variables_fc1_wm [where U = U and g = g and ?s1.0 = s1] dv
    by (auto intro: later)
  have z9: "zero_initialised g g' (fc1_wv dv) (assign_fc1_wv dv) (fc1_weights dv)"
    using discriminator_variables_fc1_wv [where U = U and g = g and ?s1.0 = s1] dv
    by (auto intro: later)
  have z10: "zero_initialised g g' (fc1_bm dv) (assign_fc1_bm dv) (fc1_biases dv)"
    using discriminator_variables_fc1_bm [where U = U and g = g and ?s1.0 = s1] dv
    by (auto intro: later)
  have z11: "zero_initialised g g' (fc1_bv dv) (assign_fc1_bv dv) (fc1_biases dv)"
    using discriminator_variables_fc1_bv [where U = U and g = g and ?s1.0 = s1] dv
    by (auto intro: later)
  show ?thesis
    unfolding D using own z0 z1 z2 z3 z4 z5 z6 z7 z8 z9 z10 z11 by simp
qed

lemma helpers_no_assign:
  "no_assign (built g (snd (BatchNormalization x mean variance offset scale variance_epsilon g)))"
  "no_assign (built g (snd (Dropout x rate g)))"
  "no_assign (built g (snd (SigmoidCrossEntropyWithLogits labels logits g)))"
  "no_assign (built g (snd (Conv2DTranspose input_sizes filt out_backprop strides padding g)))"
  "case GlorotUniform shape g of None \<Rightarrow> True | Some (out, g') \<Rightarrow> no_assign (built g g')"
  by (simp_all add: BatchNormalization_def Dropout_def SigmoidCrossEntropyWithLogits_def
        Conv2DTranspose_def GlorotUniform_result op_defs Let_def built_def no_assign_def)

end
